theory Spec2Isabelle
  imports Complex_Main "HOL-Library.Multiset" "HOL-Library.Sublist"
begin

section \<open>Python values used by the agents\<close>

text \<open>
  A Python \<open>str\<close> is a sequence of Unicode code points, so a string is a list of
  natural numbers and \<open>len\<close>, slicing and \<open>in\<close> count code points as Python does.
  \<open>u\<close> turns an ASCII literal into such a string; letters outside ASCII are written
  as their code point (305 dotless i, 351 s-cedilla, 231 c-cedilla, 252 u-diaeresis,
  246 o-diaeresis, 287 g-breve, 233 e-acute, 232 e-grave).

  Range of the model. \<open>str.lower\<close> and \<open>str.upper\<close> are modelled for the code points
  below U+0180 (Basic Latin, Latin-1 Supplement, Latin Extended-A: the alphabets of the
  three languages of the program), including the mappings that change the length
  (capital dotted I, sharp s, n preceded by apostrophe); a code point from U+0180 on is
  left unchanged, where Python maps the cased letters of other scripts too. The regex
  class \<open>\d\<close> is the ASCII digits, which are all decimal digits below U+0660.
  \<open>str.isspace\<close> and \<open>re.IGNORECASE\<close> on the letters of the two grant patterns are
  modelled for every code point. So the model is exact on strings whose code points
  are below U+0180.
\<close>

type_synonym pystr = "nat list"

definition u :: "string \<Rightarrow> pystr" where
  "u s = map of_char s"

text \<open>\<open>c.lower()\<close> for one character: a string, since one mapping gives two characters.\<close>

definition py_lower_char :: "nat \<Rightarrow> pystr" where
  "py_lower_char c =
     (if 65 \<le> c \<and> c \<le> 90 then [c + 32]
      else if (192 \<le> c \<and> c \<le> 214) \<or> (216 \<le> c \<and> c \<le> 222) then [c + 32]
      else if c = 304 then [105, 775]
      else if c = 376 then [255]
      else if ((256 \<le> c \<and> c \<le> 303) \<or> (306 \<le> c \<and> c \<le> 311) \<or> (330 \<le> c \<and> c \<le> 375))
              \<and> even c then [c + 1]
      else if ((313 \<le> c \<and> c \<le> 328) \<or> (377 \<le> c \<and> c \<le> 382)) \<and> odd c then [c + 1]
      else [c])"

text \<open>\<open>c.upper()\<close> for one character.\<close>

definition py_upper_char :: "nat \<Rightarrow> pystr" where
  "py_upper_char c =
     (if 97 \<le> c \<and> c \<le> 122 then [c - 32]
      else if c = 181 then [924]
      else if c = 223 then [83, 83]
      else if (224 \<le> c \<and> c \<le> 246) \<or> (248 \<le> c \<and> c \<le> 254) then [c - 32]
      else if c = 255 then [376]
      else if c = 305 then [73]
      else if c = 329 then [700, 78]
      else if c = 383 then [83]
      else if ((257 \<le> c \<and> c \<le> 303) \<or> (307 \<le> c \<and> c \<le> 311) \<or> (331 \<le> c \<and> c \<le> 375))
              \<and> odd c then [c - 1]
      else if ((314 \<le> c \<and> c \<le> 328) \<or> (378 \<le> c \<and> c \<le> 382)) \<and> even c then [c - 1]
      else [c])"

definition py_lower :: "pystr \<Rightarrow> pystr" where
  "py_lower s = concat (map py_lower_char s)"

definition py_upper :: "pystr \<Rightarrow> pystr" where
  "py_upper s = concat (map py_upper_char s)"

text \<open>The characters \<open>str.isspace\<close> accepts; \<open>str.split()\<close> and \<open>str.strip()\<close> use them.\<close>

definition is_space :: "nat \<Rightarrow> bool" where
  "is_space c \<longleftrightarrow>
     (9 \<le> c \<and> c \<le> 13) \<or> (28 \<le> c \<and> c \<le> 32) \<or> c = 133 \<or> c = 160 \<or> c = 5760 \<or>
     (8192 \<le> c \<and> c \<le> 8202) \<or> c = 8232 \<or> c = 8233 \<or> c = 8239 \<or> c = 8287 \<or>
     c = 12288"

text \<open>\<open>s.split()\<close>: the maximal runs of non-whitespace characters, in order.\<close>

fun split_aux :: "pystr \<Rightarrow> pystr \<Rightarrow> pystr list" where
  "split_aux w [] = (if w = [] then [] else [w])"
| "split_aux w (c # cs) =
     (if is_space c then (if w = [] then split_aux [] cs else w # split_aux [] cs)
      else split_aux (w @ [c]) cs)"

definition py_split :: "pystr \<Rightarrow> pystr list" where
  "py_split s = split_aux [] s"

definition py_strip :: "pystr \<Rightarrow> pystr" where
  "py_strip s = rev (dropWhile is_space (rev (dropWhile is_space s)))"

text \<open>\<open>p in s\<close> for strings: \<open>p\<close> occurs in \<open>s\<close> as a contiguous substring.\<close>

definition starts_with :: "pystr \<Rightarrow> pystr \<Rightarrow> bool" where
  "starts_with p s \<longleftrightarrow> take (length p) s = p"

fun in_str :: "pystr \<Rightarrow> pystr \<Rightarrow> bool" where
  "in_str p [] = (p = [])"
| "in_str p (c # cs) = (starts_with p (c # cs) \<or> in_str p cs)"

text \<open>\<open>s.replace(p, '')\<close>: every non-overlapping occurrence of \<open>p\<close>, found left to
  right, is removed.\<close>

fun replace_empty :: "pystr \<Rightarrow> pystr \<Rightarrow> pystr" where
  "replace_empty p [] = []"
| "replace_empty p (c # cs) =
     (if p \<noteq> [] \<and> starts_with p (c # cs)
      then replace_empty p (drop (length p - 1) cs)
      else c # replace_empty p cs)"

text \<open>\<open>d.get(key, default)\<close> on a key that may be absent.\<close>

definition get_or :: "'a option \<Rightarrow> 'a \<Rightarrow> 'a" where
  "get_or v d = (case v of None \<Rightarrow> d | Some x \<Rightarrow> x)"

text \<open>An exception object; \<open>str(e)\<close> is its message.\<close>

datatype exn = Exn pystr

fun exn_str :: "exn \<Rightarrow> pystr" where
  "exn_str (Exn m) = m"

section \<open>The data model\<close>

text \<open>
  The metadata mapping of a chunk, with the keys the agents read. Each key may be
  absent. The value types are the ones the ingestion writes
  (\<open>pdf_loader.py\<close>, \<open>text_processor.py\<close>): strings, and an integer chunk index.
\<close>

record metadata =
  md_source :: "pystr option"
  md_filename :: "pystr option"
  md_page_number :: "pystr option"
  md_page :: "pystr option"
  md_grant_group :: "pystr option"
  md_chunk_index :: "int option"

definition empty_metadata :: metadata where
  "empty_metadata = \<lparr> md_source = None, md_filename = None, md_page_number = None,
     md_page = None, md_grant_group = None, md_chunk_index = None \<rparr>"

text \<open>A Document Record as the agents pass it around: a dict with optional keys.\<close>

record document =
  content :: "pystr option"
  metadata :: "metadata option"
  similarity_score :: "real option"

definition doc_metadata :: "document \<Rightarrow> metadata" where
  "doc_metadata doc = get_or (metadata doc) empty_metadata"

text \<open>What the vector store returns: objects with \<open>page_content\<close> and \<open>metadata\<close>.\<close>

record sdoc =
  page_content :: pystr
  sd_metadata :: metadata

definition to_dict :: "sdoc \<Rightarrow> document" where
  "to_dict d = \<lparr> content = Some (page_content d), metadata = Some (sd_metadata d),
     similarity_score = None \<rparr>"

text \<open>A Citation Record, the dict \<open>_extract_sources\<close> builds.\<close>

record citation =
  clean_source :: pystr
  page :: pystr
  source_path :: pystr
  chunk_index :: int
  cit_similarity_score :: real
  cit_content :: pystr

text \<open>
  The request state: a dict whose keys may be absent. The cross-document analysis is
  only stored and handed to the prompt, so its type is a parameter.
\<close>

record 'x state =
  query :: "pystr option"
  detected_language :: "pystr option"
  retrieved_documents :: "document list option"
  grant_types_detected :: "pystr list option"
  cross_document_analysis :: "'x option"
  qa_response :: "pystr option"
  sources :: "citation list option"
  cited_response :: "pystr option"
  retrieval_performed :: "bool option"
  cross_document_performed :: "bool option"
  qa_performed :: "bool option"
  source_tracking_performed :: "bool option"

section \<open>Supervisor (\<open>agents/supervisor.py\<close>)\<close>

datatype goto = document_retriever | cross_document | qa_agent | source_tracker | end_node

definition supervisor_execute :: "'x state \<Rightarrow> goto" where
  "supervisor_execute st =
     (let retrieval = get_or (retrieval_performed st) False;
          qa = get_or (qa_performed st) False;
          cross = get_or (cross_document_performed st) False;
          tracking = get_or (source_tracking_performed st) False
      in if \<not> retrieval then document_retriever
         else if \<not> cross then cross_document
         else if \<not> qa then qa_agent
         else if \<not> tracking then source_tracker
         else end_node)"

text \<open>
  The dispatch rule in the words of the specification: the four flags in the priority
  order retrieval, cross-document, qa, source-tracking; the first component whose flag
  is false, the terminal state when there is none.
\<close>

definition priority_order :: "'x state \<Rightarrow> (goto \<times> bool) list" where
  "priority_order st =
     [(document_retriever, get_or (retrieval_performed st) False),
      (cross_document, get_or (cross_document_performed st) False),
      (qa_agent, get_or (qa_performed st) False),
      (source_tracker, get_or (source_tracking_performed st) False)]"

definition first_incomplete :: "'x state \<Rightarrow> goto" where
  "first_incomplete st =
     (case List.find (\<lambda>(c, done). \<not> done) (priority_order st) of
        None \<Rightarrow> end_node
      | Some (c, done) \<Rightarrow> c)"

text \<open>The position of a node in the pipeline order.\<close>

fun stage :: "goto \<Rightarrow> nat" where
  "stage document_retriever = 0"
| "stage cross_document = 1"
| "stage qa_agent = 2"
| "stage source_tracker = 3"
| "stage end_node = 4"

text \<open>The completion flag a component owns.\<close>

fun flag_of :: "goto \<Rightarrow> 'x state \<Rightarrow> bool" where
  "flag_of document_retriever st = get_or (retrieval_performed st) False"
| "flag_of cross_document st = get_or (cross_document_performed st) False"
| "flag_of qa_agent st = get_or (qa_performed st) False"
| "flag_of source_tracker st = get_or (source_tracking_performed st) False"
| "flag_of end_node st = True"

text \<open>
  One round of the graph: the component the supervisor chose has run and set its own
  flag, and no flag that was set has been cleared.
\<close>

definition round_done :: "'x state \<Rightarrow> 'x state \<Rightarrow> bool" where
  "round_done st st' \<longleftrightarrow>
     flag_of (supervisor_execute st) st' \<and>
     list_all (\<lambda>c. \<not> flag_of c st \<or> flag_of c st')
       [document_retriever, cross_document, qa_agent, source_tracker]"

section \<open>Document retriever (\<open>agents/document_retriever.py\<close>)\<close>

subsection \<open>Language detection\<close>

definition turkish_indicators :: "pystr list" where
  "turkish_indicators =
      [u ''nedir'', u ''nelerdir'', u ''nas'' @ [305] @ u ''l'', u ''ne'', u ''hangi'',
       u ''i'' @ [231] @ u ''in'', u ''ile'', u ''bir'', u ''bu'', [351] @ u ''u'',
       u ''m'' @ [305], u ''mi'', u ''mu'', u ''m'' @ [252], u ''da'', u ''de'', u ''ta'',
       u ''te'', u ''la'', u ''le'', [305] @ u ''n'', u ''in'', u ''un'', [252] @ u ''n'',
       u ''hibe'', u ''ba'' @ [351] @ u ''vuru'', u ''proje'', u ''belgeler'',
       u ''kriterler'', u ''s'' @ [252] @ u ''re'' @ [231]]"

definition english_indicators :: "pystr list" where
  "english_indicators =
      [u ''what'', u ''how'', u ''which'', u ''where'', u ''when'', u ''why'', u ''is'',
       u ''are'', u ''the'', u ''and'', u ''or'', u ''in'', u ''on'', u ''at'', u ''for'',
       u ''with'', u ''by'', u ''from'', u ''to'', u ''of'', u ''grant'',
       u ''application'', u ''project'', u ''documents'', u ''criteria'', u ''process'',
       u ''requirements'', u ''eligibility'', u ''personnel'', u ''costs'', u ''budget'',
       u ''funding'', u ''can'', u ''should'', u ''must'', u ''will'', u ''this'',
       u ''that'', u ''these'', u ''those'', u ''do'', u ''does'', u ''did'', u ''have'',
       u ''has'', u ''had'']"

definition italian_indicators :: "pystr list" where
  "italian_indicators =
      [u ''che'', u ''cosa'', u ''come'', u ''quale'', u ''dove'', u ''quando'',
       u ''perch'' @ [233], [232], u ''sono'', u ''il'', u ''la'', u ''di'', u ''a'',
       u ''da'', u ''in'', u ''con'', u ''su'', u ''per'', u ''tra'', u ''fra'',
       u ''sovvenzioni'', u ''domanda'', u ''progetto'', u ''documenti'', u ''criteri'',
       u ''processo'']"

text \<open>\<open>sum(1 for word in words if word in indicators)\<close>\<close>

definition score :: "pystr list \<Rightarrow> pystr list \<Rightarrow> nat" where
  "score indicators words = length (filter (\<lambda>word. word \<in> set indicators) words)"

definition tr_score :: "pystr \<Rightarrow> nat" where
  "tr_score text = score turkish_indicators (py_split (py_lower text))"

definition en_score :: "pystr \<Rightarrow> nat" where
  "en_score text = score english_indicators (py_split (py_lower text))"

definition it_score :: "pystr \<Rightarrow> nat" where
  "it_score text = score italian_indicators (py_split (py_lower text))"

definition detect_language :: "pystr \<Rightarrow> pystr" where
  "detect_language text =
     (if tr_score text \<ge> en_score text \<and> tr_score text \<ge> it_score text then u ''turkish''
      else if en_score text \<ge> it_score text then u ''english''
      else u ''italian'')"

subsection \<open>Relevance filter\<close>

definition irrelevant_patterns_tr :: "pystr list" where
  "irrelevant_patterns_tr =
      [u ''merhaba'', u ''hey'', u ''selam'',
       u ''nas'' @ [305] @ u ''ls'' @ [305] @ u ''n'', u ''nas'' @ [305] @ u ''l gidiyor'',
       u ''g'' @ [252] @ u ''nayd'' @ [305] @ u ''n'', u ''iyi ak'' @ [351] @ u ''amlar'',
       u ''te'' @ [351] @ u ''ekk'' @ [252] @ u ''rler'', u ''sa'' @ [287] @ u ''ol'',
       u ''ho'' @ [351, 231] @ u ''a kal'',
       u ''g'' @ [246] @ u ''r'' @ [252, 351, 252] @ u ''r'' @ [252] @ u ''z'',
       u ''naber'', u ''ne var ne yok'']"

definition irrelevant_patterns_en :: "pystr list" where
  "irrelevant_patterns_en =
      [u ''hello'', u ''hi'', u ''hey'', u ''how are you'', u ''how is it going'',
       u ''good morning'', u ''good evening'', u ''thank you'', u ''thanks'',
       u ''goodbye'', u ''see you'', u ''what'' @ [39] @ u ''s up'',
       u ''how'' @ [39] @ u ''s life'']"

definition grant_keywords_tr :: "pystr list" where
  "grant_keywords_tr =
      [u ''grant'', u ''hibe'', u ''amif'', u ''proje'', u ''ba'' @ [351] @ u ''vuru'',
       u ''finansman'', u ''b'' @ [252] @ u ''t'' @ [231] @ u ''e'', u ''maliyet'',
       u ''personel'', u ''eligibility'', u ''uygunluk'', u ''criteria'', u ''kriter'',
       u ''application'', u ''document'', u ''belge'']"

definition grant_keywords_en :: "pystr list" where
  "grant_keywords_en =
      [u ''grant'', u ''amif'', u ''project'', u ''application'', u ''funding'',
       u ''budget'', u ''cost'', u ''personnel'', u ''eligibility'', u ''criteria'',
       u ''documentation'', u ''requirement'', u ''guideline'', u ''procedure'']"

definition is_query_relevant :: "pystr \<Rightarrow> pystr \<Rightarrow> bool" where
  "is_query_relevant query' language =
     (let query_lower = py_strip (py_lower query');
          patterns = (if language = u ''tr'' then irrelevant_patterns_tr
                      else irrelevant_patterns_en);
          words = py_split query_lower
      in if length words < 3 \<and> list_ex (\<lambda>pattern. in_str pattern query_lower) patterns
         then False
         else
           let all_keywords = grant_keywords_tr @ grant_keywords_en;
               has_grant_keyword = list_ex (\<lambda>keyword. in_str keyword query_lower) all_keywords
           in if has_grant_keyword then True
              else if length words < 5 \<and> \<not> has_grant_keyword then False
              else length words \<ge> 5)"

subsection \<open>Grant categories of a query\<close>

definition grant_mappings :: "(pystr \<times> pystr list) list" where
  "grant_mappings =
    [(u ''women'',
      [u ''women'', u ''woman'', u ''kad'' @ [305] @ u ''n'',
       u ''kad'' @ [305] @ u ''nlar'', u ''female'', u ''gender'']),
     (u ''children'',
      [u ''children'', u ''child'', [231] @ u ''ocuk'', [231] @ u ''ocuklar'', u ''youth'',
       u ''minors'']),
     (u ''health'',
      [u ''health'', u ''sa'' @ [287] @ u ''l'' @ [305] @ u ''k'', u ''healthcare'',
       u ''medical'', u ''t'' @ [305] @ u ''bbi'']),
     (u ''digital'',
      [u ''digital'', u ''dijital'', u ''technology'', u ''teknoloji'', u ''online'']),
     (u ''pathways'',
      [u ''pathways'', u ''education'', u ''e'' @ [287] @ u ''itim'', u ''training'',
       [246, 287] @ u ''retim''])]"

definition extract_grant_types_from_query :: "pystr \<Rightarrow> pystr list" where
  "extract_grant_types_from_query query' =
     (let query_lower = py_lower query'
      in map fst (filter (\<lambda>(grant_type, keywords).
                    list_ex (\<lambda>keyword. in_str keyword query_lower) keywords) grant_mappings))"

subsection \<open>The search backend (\<open>ingestion/vector_store.py\<close>)\<close>

text \<open>
  The vector index is external: a call with a query text and a result count returns a
  ranked list of documents or raises. \<open>search_documents\<close> wraps the call in
  \<open>try ... except Exception: return []\<close>.
\<close>

type_synonym backend = "pystr \<Rightarrow> nat \<Rightarrow> exn + sdoc list"

definition search_documents :: "backend \<Rightarrow> pystr \<Rightarrow> nat \<Rightarrow> sdoc list" where
  "search_documents vs query' k = (case vs query' k of Inl e \<Rightarrow> [] | Inr results \<Rightarrow> results)"

subsection \<open>Multi-search and \<open>execute\<close>\<close>

text \<open>The calls of \<open>search_documents\<close> a retrieval makes, in order: query text and k.\<close>

type_synonym search_log = "(pystr \<times> nat) list"

definition source_of :: "document \<Rightarrow> pystr" where
  "source_of doc = get_or (md_source (doc_metadata doc)) []"

text \<open>The body of both result loops: a document whose source was not seen is appended.\<close>

definition add_result :: "sdoc \<Rightarrow> pystr set \<times> document list \<Rightarrow> pystr set \<times> document list" where
  "add_result doc acc =
     (case acc of (unique_sources, all_documents) \<Rightarrow>
        let source = get_or (md_source (sd_metadata doc)) []
        in if source \<notin> unique_sources
           then (insert source unique_sources, all_documents @ [to_dict doc])
           else (unique_sources, all_documents))"

definition search_terms_table :: "(pystr \<times> pystr) list" where
  "search_terms_table =
    [(u ''women'', u ''AMIF-2025 WOMEN grant eligibility criteria budget''),
     (u ''children'', u ''AMIF-2025 CHILDREN grant eligibility criteria budget''),
     (u ''health'', u ''AMIF-2025 HEALTH grant eligibility criteria budget''),
     (u ''digital'', u ''AMIF-2025 DIGITAL grant eligibility criteria budget''),
     (u ''pathways'', u ''AMIF-2025 PATHWAYS grant eligibility criteria budget'')]"

definition search_terms :: "pystr \<Rightarrow> pystr" where
  "search_terms grant_type =
     (case map_of search_terms_table grant_type of
        Some search_query \<Rightarrow> search_query
      | None \<Rightarrow> u ''AMIF-2025 '' @ py_upper grant_type)"

definition grant_search ::
  "backend \<Rightarrow> pystr \<Rightarrow> (pystr set \<times> document list) \<times> search_log
     \<Rightarrow> (pystr set \<times> document list) \<times> search_log" where
  "grant_search vs grant_type st =
     (case st of (acc, calls) \<Rightarrow>
        let search_query = search_terms grant_type;
            grant_results = search_documents vs search_query 4
        in (fold add_result grant_results acc, calls @ [(search_query, 4)]))"

definition perform_multi_search ::
  "backend \<Rightarrow> pystr \<Rightarrow> pystr list \<Rightarrow> document list \<times> search_log" where
  "perform_multi_search vs query' grant_types =
     (let main_results = search_documents vs query' 6;
          acc = fold add_result main_results ({}, []);
          st = (if grant_types \<noteq> [] then fold (grant_search vs) grant_types (acc, [(query', 6)])
                else (acc, [(query', 6)]))
      in (snd (fst st), snd st))"

text \<open>
  The body of the \<open>try\<close> block of \<open>execute\<close>: the documents, the detected categories
  and the searches made. Nothing in it raises (\<open>search_documents\<close> catches), so
  it always returns; the result type keeps the exceptional exit for the handler.
\<close>

definition retrieve ::
  "backend \<Rightarrow> pystr \<Rightarrow> (exn + document list \<times> pystr list) \<times> search_log" where
  "retrieve vs query' =
     (let grant_types = extract_grant_types_from_query query'
      in if length grant_types \<ge> 2
         then (case perform_multi_search vs query' grant_types of
                 (doc_dicts, calls) \<Rightarrow> (Inr (doc_dicts, grant_types), calls))
         else (Inr (map to_dict (search_documents vs query' 8), grant_types), [(query', 8)]))"

definition retriever_execute :: "backend \<Rightarrow> 'x state \<Rightarrow> 'x state \<times> search_log" where
  "retriever_execute vs st =
     (let query' = get_or (query st) []
      in if query' = []
         then (st\<lparr> retrieved_documents := Some [], retrieval_performed := Some True,
                   detected_language := Some (u ''tr'') \<rparr>, [])
         else
           let language = detect_language query';
               st1 = st\<lparr> detected_language := Some language \<rparr>
           in if \<not> is_query_relevant query' language
              then (st1\<lparr> retrieved_documents := Some [], retrieval_performed := Some True \<rparr>, [])
              else
                (case retrieve vs query' of
                   (Inr (doc_dicts, grant_types), calls) \<Rightarrow>
                     (st1\<lparr> retrieved_documents := Some doc_dicts,
                           retrieval_performed := Some True,
                           detected_language := Some language,
                           grant_types_detected := Some grant_types \<rparr>, calls)
                 | (Inl e, calls) \<Rightarrow>
                     (st1\<lparr> retrieved_documents := Some [],
                           retrieval_performed := Some True,
                           detected_language := Some language \<rparr>, calls)))"

text \<open>
  The merged output in the words of the specification: the results of the raw-query
  search followed by those of the category searches, in the order of the searches;
  \<open>keep_first source_of {}\<close> of this list keeps the first document of each source.
\<close>

definition search_results :: "backend \<Rightarrow> pystr \<Rightarrow> pystr list \<Rightarrow> document list" where
  "search_results vs q grant_types =
     map to_dict (search_documents vs q 6 @
                  concat (map (\<lambda>g. search_documents vs (search_terms g) 4) grant_types))"

text \<open>
  The results of the searches that did not raise, in the order of the calls: a call that
  raises contributes nothing.
\<close>

definition successful_results :: "backend \<Rightarrow> search_log \<Rightarrow> sdoc list" where
  "successful_results vs calls =
     concat (map (\<lambda>(q, k). case vs q k of Inl e \<Rightarrow> [] | Inr results \<Rightarrow> results) calls)"

section \<open>Source tracker (\<open>agents/source_tracker.py\<close>)\<close>

definition clean_source_of :: "document \<Rightarrow> pystr" where
  "clean_source_of doc =
     (let md = doc_metadata doc;
          source_path' = get_or (md_source md) [];
          clean = replace_empty (u ''.pdf'') (replace_empty (u ''data/raw/'') source_path')
      in if clean = [] then get_or (md_filename md) (u ''Bilinmeyen'') else clean)"

definition page_number_of :: "document \<Rightarrow> pystr" where
  "page_number_of doc =
     (let md = doc_metadata doc
      in case md_page_number md of
           Some page_number \<Rightarrow> page_number
         | None \<Rightarrow> get_or (md_page md) [])"

definition source_key :: "document \<Rightarrow> pystr \<times> pystr" where
  "source_key doc = (clean_source_of doc, page_number_of doc)"

definition make_citation :: "document \<Rightarrow> citation" where
  "make_citation doc =
     \<lparr> clean_source = clean_source_of doc,
       page = (if page_number_of doc \<noteq> [] then u ''Sayfa '' @ page_number_of doc
               else u ''Sayfa bilinmiyor''),
       source_path = get_or (md_source (doc_metadata doc)) [],
       chunk_index = get_or (md_chunk_index (doc_metadata doc)) 0,
       cit_similarity_score = get_or (similarity_score doc) 0,
       cit_content = take 100 (get_or (content doc) []) @ u ''...'' \<rparr>"

text \<open>One iteration of the loop of \<open>_extract_sources\<close> on \<open>(seen_sources, sources)\<close>.\<close>

definition extract_step ::
  "document \<Rightarrow> (pystr \<times> pystr) set \<times> citation list \<Rightarrow> (pystr \<times> pystr) set \<times> citation list" where
  "extract_step doc acc =
     (case acc of (seen_sources, sources') \<Rightarrow>
        if source_key doc \<in> seen_sources then (seen_sources, sources')
        else (insert (source_key doc) seen_sources, sources' @ [make_citation doc]))"

definition extract_sources :: "document list \<Rightarrow> citation list" where
  "extract_sources documents = snd (fold extract_step documents ({}, []))"

definition add_citations :: "pystr \<Rightarrow> citation list \<Rightarrow> pystr" where
  "add_citations response sources' = response"

definition source_tracker_execute :: "'x state \<Rightarrow> 'x state" where
  "source_tracker_execute st =
     (let documents = get_or (retrieved_documents st) [];
          response = get_or (qa_response st) [];
          st1 = st\<lparr> source_tracking_performed := Some True \<rparr>
      in if documents = []
         then st1\<lparr> sources := Some [], cited_response := Some response \<rparr>
         else
           let sources' = extract_sources documents;
               cited = add_citations response sources'
           in st1\<lparr> sources := Some sources', cited_response := Some cited \<rparr>)"

text \<open>
  Deduplication in the words of the specification: the first occurrence of each key is
  kept, in input order; \<open>seen\<close> holds the keys already taken.
\<close>

fun keep_first :: "('a \<Rightarrow> 'k) \<Rightarrow> 'k set \<Rightarrow> 'a list \<Rightarrow> 'a list" where
  "keep_first key seen [] = []"
| "keep_first key seen (x # xs) =
     (if key x \<in> seen then keep_first key seen xs
      else x # keep_first key (insert (key x) seen) xs)"

section \<open>The language model\<close>

text \<open>
  The model is external: a call with a prompt returns the generated text or raises.
  A prompt is represented by the template used and the values filled into it; the
  rendering of the values into the template text is not modelled.
\<close>

record grant_summary =
  gs_grant_id :: pystr
  gs_doc_types :: "pystr set"
  gs_count :: nat
  gs_preview :: pystr

datatype 'x prompt =
    QA_prompt "document list" "'x option" pystr
  | Comparison_prompt "grant_summary list" pystr
  | Synthesis_prompt "(pystr \<times> (pystr option \<times> pystr) list) list" pystr

type_synonym 'x llm = "'x prompt \<Rightarrow> exn + pystr"

section \<open>Answer synthesizer (\<open>agents/qa_agent.py\<close>)\<close>

definition simple_greetings :: "pystr list" where
  "simple_greetings =
      [u ''hello'', u ''hi'', u ''hey'', u ''merhaba'', u ''selam'', u ''ciao'',
       u ''salve'']"

definition out_of_scope_message :: pystr where
  "out_of_scope_message =
     u ''I'' @ [39] @ u ''m designed to answer questions about AMIF grant documents. '' @
     u ''Please ask me about grant procedures, eligibility criteria, '' @
     u ''or application requirements.''"

definition insufficient_message :: pystr where
  "insufficient_message =
     u ''I couldn'' @ [39] @ u ''t find sufficient information to answer your question.''"

text \<open>
  \<open>execute\<close> returns the updated state or leaves with the exception the model call
  raised; the second component lists the prompts sent to the model.
\<close>

definition qa_execute :: "'x llm \<Rightarrow> 'x state \<Rightarrow> (exn + 'x state) \<times> 'x prompt list" where
  "qa_execute llm st =
     (let query' = get_or (query st) [];
          documents = get_or (retrieved_documents st) []
      in if length (py_split (py_strip query')) < 3 \<and>
            list_ex (\<lambda>greeting. in_str greeting (py_lower query')) simple_greetings
         then (Inr (st\<lparr> qa_response := Some out_of_scope_message,
                         qa_performed := Some True \<rparr>), [])
         else if query' = [] \<or> documents = []
         then (Inr (st\<lparr> qa_response := Some insufficient_message,
                         qa_performed := Some True \<rparr>), [])
         else
           let prompt = QA_prompt documents (cross_document_analysis st) query'
           in case llm prompt of
                Inl e \<Rightarrow> (Inl e, [prompt])
              | Inr response \<Rightarrow>
                  (Inr (st\<lparr> qa_response := Some response, qa_performed := Some True \<rparr>),
                   [prompt]))"

section \<open>Cross-document reasoner (\<open>agents/cross_document_agent.py\<close>)\<close>

subsection \<open>Grant identifiers in file names\<close>

definition is_digit :: "nat \<Rightarrow> bool" where
  "is_digit c \<longleftrightarrow> 48 \<le> c \<and> c \<le> 57"

text \<open>
  \<open>re.IGNORECASE\<close> for one ASCII character \<open>p\<close> of a pattern: the text character
  \<open>c\<close> is \<open>p\<close> in either case; the pattern letter I also matches the capital dotted
  I (304) and the dotless i (305). The letters k and s, which have further matches in
  Python, do not occur in the patterns.
\<close>

definition ignorecase_eq :: "nat \<Rightarrow> nat \<Rightarrow> bool" where
  "ignorecase_eq p c \<longleftrightarrow>
     c = p \<or> (65 \<le> p \<and> p \<le> 90 \<and> c = p + 32) \<or> (97 \<le> p \<and> p \<le> 122 \<and> c + 32 = p) \<or>
     ((p = 73 \<or> p = 105) \<and> (c = 304 \<or> c = 305))"

text \<open>A literal of the pattern at the start of \<open>s\<close>, ignoring case; the rest of \<open>s\<close>.\<close>

fun match_literal :: "pystr \<Rightarrow> pystr \<Rightarrow> pystr option" where
  "match_literal [] s = Some s"
| "match_literal (p # ps) [] = None"
| "match_literal (p # ps) (c # cs) =
     (if ignorecase_eq p c then match_literal ps cs else None)"

definition match_digits4 :: "pystr \<Rightarrow> pystr option" where
  "match_digits4 s =
     (if length s \<ge> 4 \<and> list_all is_digit (take 4 s) then Some (drop 4 s) else None)"

text \<open>
  \<open>AMIF-\d{4}-TF\d+-AG-[^_]+\<close> at the start of \<open>s\<close>: the matched text. The greedy
  \<open>\d+\<close> takes every digit (a shorter run would be followed by a digit, not by
  \<open>-AG-\<close>), and \<open>[^_]+\<close> runs to the next underscore or the end.
\<close>

definition match_full_pattern :: "pystr \<Rightarrow> pystr option" where
  "match_full_pattern s =
     (case match_literal (u ''AMIF-'') s of None \<Rightarrow> None | Some s1 \<Rightarrow>
      case match_digits4 s1 of None \<Rightarrow> None | Some s2 \<Rightarrow>
      case match_literal (u ''-TF'') s2 of None \<Rightarrow> None | Some s3 \<Rightarrow>
      if takeWhile is_digit s3 = [] then None else
      case match_literal (u ''-AG-'') (dropWhile is_digit s3) of None \<Rightarrow> None | Some s4 \<Rightarrow>
      if takeWhile (\<lambda>c. c \<noteq> 95) s4 = [] then None
      else Some (take (length s - length (dropWhile (\<lambda>c. c \<noteq> 95) s4)) s))"

text \<open>\<open>AMIF-\d{4}-[^_]+\<close> at the start of \<open>s\<close>.\<close>

definition match_short_pattern :: "pystr \<Rightarrow> pystr option" where
  "match_short_pattern s =
     (case match_literal (u ''AMIF-'') s of None \<Rightarrow> None | Some s1 \<Rightarrow>
      case match_digits4 s1 of None \<Rightarrow> None | Some s2 \<Rightarrow>
      case match_literal (u ''-'') s2 of None \<Rightarrow> None | Some s3 \<Rightarrow>
      if takeWhile (\<lambda>c. c \<noteq> 95) s3 = [] then None
      else Some (take (length s - length (dropWhile (\<lambda>c. c \<noteq> 95) s3)) s))"

text \<open>The leftmost match of a pattern in \<open>s\<close>: \<open>re.findall(pattern, s)[0]\<close>.\<close>

fun search_first :: "(pystr \<Rightarrow> pystr option) \<Rightarrow> pystr \<Rightarrow> pystr option" where
  "search_first m [] = m []"
| "search_first m (c # cs) =
     (case m (c # cs) of Some found \<Rightarrow> Some found | None \<Rightarrow> search_first m cs)"

definition grant_patterns :: "(pystr \<Rightarrow> pystr option) list" where
  "grant_patterns = [match_full_pattern, match_short_pattern]"

text \<open>The loop over the patterns: the first pattern with a match gives the identifier.\<close>

fun first_pattern_match :: "(pystr \<Rightarrow> pystr option) list \<Rightarrow> pystr \<Rightarrow> pystr option" where
  "first_pattern_match [] filename = None"
| "first_pattern_match (pattern # patterns) filename =
     (case search_first pattern filename of
        Some found \<Rightarrow> Some (py_upper found)
      | None \<Rightarrow> first_pattern_match patterns filename)"

subsection \<open>Grant keywords in the content\<close>

definition grant_keywords :: "(pystr \<times> pystr list) list" where
  "grant_keywords =
    [(u ''AMIF-2025-TF2-AG-INTE-01-WOMEN'', [u ''WOMEN'', u ''GENDER'', u ''FEMALE'']),
     (u ''AMIF-2025-TF2-AG-INTE-05-CHILDREN'',
      [u ''CHILDREN'', u ''CHILD'', u ''MINORS'', u ''YOUTH'']),
     (u ''AMIF-2025-TF2-AG-INTE-02-HEALTH'', [u ''HEALTH'', u ''MEDICAL'', u ''HEALTHCARE'']),
     (u ''AMIF-2025-TF2-AG-INTE-03-DIGITAL'', [u ''DIGITAL'', u ''TECHNOLOGY'', u ''ONLINE'']),
     (u ''AMIF-2025-TF2-AG-INTE-04-PATHWAYS'',
      [u ''PATHWAYS'', u ''EDUCATION'', u ''TRAINING''])]"

text \<open>One iteration of the scoring loop on \<open>(best_match, max_score)\<close>.\<close>

definition best_step ::
  "pystr \<Rightarrow> pystr \<times> pystr list \<Rightarrow> pystr option \<times> nat \<Rightarrow> pystr option \<times> nat" where
  "best_step content' entry best =
     (case entry of (grant_id, keywords) \<Rightarrow>
        let score' = length (filter (\<lambda>keyword. in_str keyword content') keywords)
        in if score' > snd best then (Some grant_id, score') else best)"

definition content_key :: "pystr \<Rightarrow> pystr" where
  "content_key content' =
     (case fold (best_step content') grant_keywords (None, 0) of
        (Some best_match, max_score) \<Rightarrow>
          if best_match \<noteq> [] \<and> max_score > 0 then best_match else u ''UNKNOWN''
      | (None, max_score) \<Rightarrow> u ''UNKNOWN'')"

subsection \<open>Grouping\<close>

text \<open>
  Every path through the loop body of \<open>_extract_grant_groups\<close> ends in one
  \<open>grant_groups[key].append(doc)\<close>; \<open>group_key\<close> is the key that path uses.
\<close>

definition filename_key :: "document \<Rightarrow> pystr" where
  "filename_key doc =
     (let md = doc_metadata doc;
          filename = (if get_or (md_filename md) [] \<noteq> [] then get_or (md_filename md) []
                      else get_or (md_source md) [])
      in if filename \<noteq> []
         then (case first_pattern_match grant_patterns filename of
                 Some grant_id \<Rightarrow> grant_id
               | None \<Rightarrow> content_key (py_upper (get_or (content doc) [])))
         else u ''UNKNOWN'')"

definition group_key :: "document \<Rightarrow> pystr" where
  "group_key doc =
     (case md_grant_group (doc_metadata doc) of
        Some grant_group \<Rightarrow>
          if grant_group \<noteq> [] \<and> grant_group \<noteq> u ''unknown_grant'' then grant_group
          else filename_key doc
      | None \<Rightarrow> filename_key doc)"

text \<open>
  \<open>grant_groups[key].append(doc)\<close> on a \<open>defaultdict(list)\<close>. The dict is a list of
  pairs in insertion order: a new key goes to the end.
\<close>

fun dict_append :: "'k \<Rightarrow> 'v \<Rightarrow> ('k \<times> 'v list) list \<Rightarrow> ('k \<times> 'v list) list" where
  "dict_append k v [] = [(k, [v])]"
| "dict_append k v ((k', vs) # rest) =
     (if k = k' then (k', vs @ [v]) # rest else (k', vs) # dict_append k v rest)"

definition extract_grant_groups :: "document list \<Rightarrow> (pystr \<times> document list) list" where
  "extract_grant_groups documents =
     fold (\<lambda>doc grant_groups. dict_append (group_key doc) doc grant_groups) documents []"

subsection \<open>Comparison and synthesis\<close>

definition identify_document_types :: "pystr \<Rightarrow> pystr" where
  "identify_document_types filename =
     (let filename_lower = py_lower filename
      in if in_str (u ''call-fiche'') filename_lower \<or> in_str (u ''call_fiche'') filename_lower
         then u ''call_document''
         else if in_str (u ''faq'') filename_lower then u ''faq''
         else if in_str (u ''template'') filename_lower then u ''template''
         else if in_str (u ''guide'') filename_lower \<or> in_str (u ''guideline'') filename_lower
         then u ''guide''
         else if in_str (u ''aga'') filename_lower then u ''administrative_guide''
         else if in_str (u ''evaluation'') filename_lower then u ''evaluation_guide''
         else u ''other'')"

definition summarize :: "pystr \<times> document list \<Rightarrow> grant_summary" where
  "summarize entry =
     (case entry of (grant_id, docs) \<Rightarrow>
        \<lparr> gs_grant_id = grant_id,
          gs_doc_types = set (map (\<lambda>doc. identify_document_types
                                 (get_or (md_filename (doc_metadata doc)) [])) docs),
          gs_count = length docs,
          gs_preview = (case docs of [] \<Rightarrow> []
                        | doc # rest \<Rightarrow> take 300 (get_or (content doc) []) @ u ''...'') \<rparr>)"

text \<open>The dict a comparison returns; two of its keys are absent on some paths.\<close>

record comparison =
  comparison_type :: pystr
  analysis :: pystr
  grants_compared :: "pystr list option"
  total_documents :: "nat option"

definition perform_cross_grant_comparison ::
  "'x llm \<Rightarrow> (pystr \<times> document list) list \<Rightarrow> pystr \<Rightarrow> comparison \<times> 'x prompt list" where
  "perform_cross_grant_comparison llm grant_groups query' =
     (if length grant_groups < 2
      then (\<lparr> comparison_type = u ''single_grant'', analysis = u ''Tek grant analizi'',
               grants_compared = None, total_documents = None \<rparr>, [])
      else
        let prompt = Comparison_prompt (map summarize grant_groups) query'
        in case llm prompt of
             Inr response \<Rightarrow>
               (\<lparr> comparison_type = u ''cross_grant'', analysis = response,
                   grants_compared = Some (map fst grant_groups),
                   total_documents = Some (sum_list (map (\<lambda>(k, docs). length docs) grant_groups)) \<rparr>,
                [prompt])
           | Inl e \<Rightarrow>
               (\<lparr> comparison_type = u ''error'',
                   analysis = u ''Kar'' @ [351, 305] @ u ''la'' @ [351] @ u ''t'' @ [305] @
                              u ''rma hatas'' @ [305] @ u '': '' @ exn_str e,
                   grants_compared = Some (map fst grant_groups),
                   total_documents = None \<rparr>,
                [prompt]))"

definition excerpt :: "document \<Rightarrow> pystr option \<times> pystr" where
  "excerpt doc =
     (md_filename (doc_metadata doc),
      if length (get_or (content doc) []) > 500
      then take 500 (get_or (content doc) []) @ u ''...''
      else get_or (content doc) [])"

definition synthesize_cross_document_answer ::
  "'x llm \<Rightarrow> document list \<Rightarrow> pystr \<Rightarrow> (pystr \<times> document list) list
     \<Rightarrow> pystr \<times> 'x prompt list" where
  "synthesize_cross_document_answer llm documents query' grant_groups =
     (let prompt = Synthesis_prompt
                     (map (\<lambda>(grant_id, docs). (grant_id, map excerpt docs)) grant_groups) query'
      in case llm prompt of
           Inr response \<Rightarrow> (response, [prompt])
         | Inl e \<Rightarrow> (u ''Belge sentezi hatas'' @ [305] @ u '': '' @ exn_str e, [prompt]))"

section \<open>Example inputs\<close>

text \<open>A fresh request state for a query: no other key is set yet.\<close>

definition new_state :: "pystr \<Rightarrow> unit state" where
  "new_state q =
     \<lparr> query = Some q, detected_language = None, retrieved_documents = None,
       grant_types_detected = None, cross_document_analysis = None, qa_response = None,
       sources = None, cited_response = None, retrieval_performed = None,
       cross_document_performed = None, qa_performed = None,
       source_tracking_performed = None \<rparr>"

text \<open>A chunk as the index returns it, with a source path and a page number.\<close>

definition chunk :: "pystr \<Rightarrow> pystr \<Rightarrow> pystr \<Rightarrow> sdoc" where
  "chunk source_path' page_number text =
     \<lparr> page_content = text,
       sd_metadata = empty_metadata\<lparr> md_source := Some source_path',
                                      md_page_number := Some page_number \<rparr> \<rparr>"

text \<open>A language model whose every call raises.\<close>

definition failing_llm :: "unit llm" where
  "failing_llm prompt = Inl (Exn (u ''rate limit''))"

text \<open>
  Four chunks: the third has the source and page of the first, the fourth the source of
  the first and another page.
\<close>

definition example_documents :: "document list" where
  "example_documents =
     [to_dict (chunk (u ''data/raw/a.pdf'') (u ''1'') (u ''first'')),
      to_dict (chunk (u ''data/raw/b.pdf'') (u ''2'') (u ''second'')),
      to_dict (chunk (u ''data/raw/a.pdf'') (u ''1'') (u ''third'')),
      to_dict (chunk (u ''data/raw/a.pdf'') (u ''2'') (u ''fourth''))]"

text \<open>
  An index with three files: the raw query finds \<open>a\<close> and \<open>b\<close>, the search for the
  women category finds \<open>b\<close> and \<open>c\<close>, any other search finds \<open>a\<close>.
\<close>

definition example_index :: backend where
  "example_index q k =
     (if k = 6 then Inr [chunk (u ''data/raw/a.pdf'') (u ''1'') (u ''text''),
                         chunk (u ''data/raw/b.pdf'') (u ''1'') (u ''text'')]
      else if q = u ''AMIF-2025 WOMEN grant eligibility criteria budget''
      then Inr [chunk (u ''data/raw/b.pdf'') (u ''2'') (u ''text''),
                chunk (u ''data/raw/c.pdf'') (u ''1'') (u ''text'')]
      else Inr [chunk (u ''data/raw/a.pdf'') (u ''3'') (u ''text'')])"

text \<open>An index whose every call raises.\<close>

definition index_down :: backend where
  "index_down q k = Inl (Exn (u ''connection refused''))"

text \<open>An index that raises on one query text and finds a chunk for every other.\<close>

definition raw_query_timeout :: backend where
  "raw_query_timeout q k =
     (if q = u ''women and children grant'' then Inl (Exn (u ''timeout''))
      else Inr [chunk (u ''data/raw/a.pdf'') (u ''1'') (u ''text'')])"

text \<open>
  Five documents for the grouping: two tagged with a grant group, one whose file name
  carries a grant identifier, one with no metadata to go by, one grouped by its content.
\<close>

definition grant_doc :: "pystr option \<Rightarrow> pystr option \<Rightarrow> pystr \<Rightarrow> document" where
  "grant_doc grant_group filename text =
     \<lparr> content = Some text,
       metadata = Some (empty_metadata\<lparr> md_grant_group := grant_group,
                                          md_filename := filename \<rparr>),
       similarity_score = None \<rparr>"

definition example_grant_documents :: "document list" where
  "example_grant_documents =
     [grant_doc (Some (u ''AMIF-2025-TF2-AG-INTE-01-WOMEN'')) (Some (u ''a.pdf'')) (u ''one''),
      grant_doc (Some (u ''unknown_grant''))
        (Some (u ''amif-2025-tf2-ag-inte-05-children_faq.pdf'')) (u ''two''),
      grant_doc None None (u ''three''),
      grant_doc (Some (u ''AMIF-2025-TF2-AG-INTE-01-WOMEN'')) (Some (u ''b.pdf'')) (u ''four''),
      grant_doc None (Some (u ''notes.pdf'')) (u ''medical and health services'')]"

text \<open>
  An index on which the search for the women category raises; the raw query finds
  \<open>a\<close>, any other search finds \<open>a\<close> and \<open>c\<close>.
\<close>

definition women_search_timeout :: backend where
  "women_search_timeout q k =
     (if q = u ''AMIF-2025 WOMEN grant eligibility criteria budget'' then Inl (Exn (u ''timeout''))
      else if k = 6 then Inr [chunk (u ''data/raw/a.pdf'') (u ''1'') (u ''text'')]
      else Inr [chunk (u ''data/raw/a.pdf'') (u ''2'') (u ''text''),
                chunk (u ''data/raw/c.pdf'') (u ''1'') (u ''text'')])"

section \<open>Basic facts about the string functions\<close>

lemmas str_defs = u_def py_lower_def py_upper_def py_lower_char_def py_upper_char_def py_split_def
  py_strip_def is_space_def starts_with_def

lemma language_literals_distinct:
  "u ''turkish'' \<noteq> u ''english''" "u ''turkish'' \<noteq> u ''italian''"
  "u ''english'' \<noteq> u ''italian''" "u ''turkish'' \<noteq> u ''tr''"
  "u ''english'' \<noteq> u ''tr''" "u ''italian'' \<noteq> u ''tr''"
  by (simp_all add: u_def)

lemma scores_empty: "tr_score [] = 0" "en_score [] = 0" "it_score [] = 0"
  by (simp_all add: tr_score_def en_score_def it_score_def score_def py_split_def py_lower_def)

subsection \<open>Tokens and substrings\<close>

lemma split_aux_word:
  "\<forall>c \<in> set s. \<not> is_space c \<Longrightarrow> split_aux w s = (if w @ s = [] then [] else [w @ s])"
  by (induction s arbitrary: w) auto

lemma split_aux_space:
  "is_space c \<Longrightarrow> split_aux w (a @ c # b) = split_aux w a @ split_aux [] b"
  by (induction a arbitrary: w) auto

lemma split_aux_blank:
  "\<forall>c \<in> set ws. is_space c \<Longrightarrow> split_aux w ws = (if w = [] then [] else [w])"
  by (induction ws arbitrary: w) auto

lemma split_aux_trailing:
  "\<forall>c \<in> set ws. is_space c \<Longrightarrow> split_aux w (t @ ws) = split_aux w t"
  by (induction t arbitrary: w) (simp_all add: split_aux_blank)

lemma split_aux_leading: "split_aux [] (dropWhile is_space s) = split_aux [] s"
  by (induction s) auto

lemma py_split_word: "w \<noteq> [] \<Longrightarrow> \<forall>c \<in> set w. \<not> is_space c \<Longrightarrow> py_split w = [w]"
  by (simp add: py_split_def split_aux_word)

lemma py_split_space: "is_space c \<Longrightarrow> py_split (a @ c # b) = py_split a @ py_split b"
  by (simp add: py_split_def split_aux_space)

lemma py_split_strip: "py_split (py_strip s) = py_split s"
proof -
  let ?t = "dropWhile is_space s"
  have "?t = rev (dropWhile is_space (rev ?t)) @ rev (takeWhile is_space (rev ?t))"
    by (metis rev_append rev_rev_ident takeWhile_dropWhile_id)
  moreover have "\<forall>c \<in> set (rev (takeWhile is_space (rev ?t))). is_space c"
    by (auto dest: set_takeWhileD)
  ultimately have "split_aux [] ?t = split_aux [] (rev (dropWhile is_space (rev ?t)))"
    using split_aux_trailing [of "rev (takeWhile is_space (rev ?t))" "[]"
        "rev (dropWhile is_space (rev ?t))"]
    by simp
  then show ?thesis
    by (simp add: py_split_def py_strip_def split_aux_leading)
qed

lemma is_space_iff:
  "is_space c \<longleftrightarrow>
     c \<in> {9, 10, 11, 12, 13, 28, 29, 30, 31, 32, 133, 160, 5760, 8232, 8233, 8239, 8287, 12288}
       \<union> {8192..8202}"
  unfolding is_space_def by (simp; arith)

lemma starts_with_iff: "starts_with p s \<longleftrightarrow> (\<exists>b. s = p @ b)"
proof
  assume "starts_with p s"
  then have "s = p @ drop (length p) s"
    unfolding starts_with_def by (metis append_take_drop_id)
  then show "\<exists>b. s = p @ b" ..
next
  assume "\<exists>b. s = p @ b"
  then show "starts_with p s" by (auto simp: starts_with_def)
qed

lemma in_str_iff: "in_str p s \<longleftrightarrow> (\<exists>a b. s = a @ p @ b)"
proof (induction s)
  case Nil
  then show ?case by simp
next
  case (Cons c cs)
  have "(\<exists>a b. c # cs = a @ p @ b) \<longleftrightarrow> (\<exists>b. c # cs = p @ b) \<or> (\<exists>a b. cs = a @ p @ b)"
  proof
    assume "\<exists>a b. c # cs = a @ p @ b"
    then obtain a b where e: "c # cs = a @ p @ b" by blast
    show "(\<exists>b. c # cs = p @ b) \<or> (\<exists>a b. cs = a @ p @ b)"
    proof (cases a)
      case Nil
      with e show ?thesis by auto
    next
      case (Cons x a')
      with e have "cs = a' @ p @ b" by simp
      then show ?thesis by blast
    qed
  next
    assume "(\<exists>b. c # cs = p @ b) \<or> (\<exists>a b. cs = a @ p @ b)"
    then show "\<exists>a b. c # cs = a @ p @ b"
    proof
      assume "\<exists>b. c # cs = p @ b"
      then obtain b where "c # cs = [] @ p @ b" by auto
      then show ?thesis by blast
    next
      assume "\<exists>a b. cs = a @ p @ b"
      then obtain a b where "c # cs = (c # a) @ p @ b" by auto
      then show ?thesis by blast
    qed
  qed
  with Cons.IH show ?case
    by (simp add: starts_with_iff)
qed

section \<open>Supervisor\<close>

text \<open>
  Claim C2. For every state the supervisor routes to the first component, in the order
  retrieval, cross-document, qa, source-tracking, whose completion flag is false, and to
  the terminal state exactly when all four flags are true. Consequently the pipeline
  only moves forward: after a round in which the chosen component has set its flag and
  no flag was cleared, the supervisor's next choice is strictly later in the order
  retrieval, cross-document, qa, source-tracking, done.
\<close>

theorem supervisor_dispatch_order:
  fixes st st' :: "'x state"
  shows "supervisor_execute st = first_incomplete st \<and>
    (supervisor_execute st = end_node \<longleftrightarrow>
       get_or (retrieval_performed st) False \<and> get_or (cross_document_performed st) False \<and>
       get_or (qa_performed st) False \<and> get_or (source_tracking_performed st) False) \<and>
    (round_done st st' \<and> supervisor_execute st \<noteq> end_node \<longrightarrow>
       stage (supervisor_execute st) < stage (supervisor_execute st'))"
proof (intro conjI)
  show "supervisor_execute st = first_incomplete st"
    by (simp add: supervisor_execute_def first_incomplete_def priority_order_def)
  show "supervisor_execute st = end_node \<longleftrightarrow>
       get_or (retrieval_performed st) False \<and> get_or (cross_document_performed st) False \<and>
       get_or (qa_performed st) False \<and> get_or (source_tracking_performed st) False"
    by (simp add: supervisor_execute_def)
  show "round_done st st' \<and> supervisor_execute st \<noteq> end_node \<longrightarrow>
       stage (supervisor_execute st) < stage (supervisor_execute st')"
    by (auto simp: round_done_def supervisor_execute_def split: if_splits)
qed

theorem supervisor_dispatch_order_witness:
  "round_done (new_state (u ''hello'')\<lparr> retrieval_performed := Some True \<rparr>)
     (new_state (u ''hello'')\<lparr> retrieval_performed := Some True,
                                cross_document_performed := Some True \<rparr>) \<and>
   supervisor_execute (new_state (u ''hello'')\<lparr> retrieval_performed := Some True \<rparr>)
     = cross_document \<and>
   first_incomplete (new_state (u ''hello'')\<lparr> retrieval_performed := Some True \<rparr>)
     = cross_document \<and>
   stage cross_document
     < stage (supervisor_execute (new_state (u ''hello'')\<lparr> retrieval_performed := Some True,
                                cross_document_performed := Some True \<rparr>))"
  using supervisor_dispatch_order
    [of "new_state (u ''hello'')\<lparr> retrieval_performed := Some True \<rparr>"
        "new_state (u ''hello'')\<lparr> retrieval_performed := Some True,
                                   cross_document_performed := Some True \<rparr>"]
  by (simp add: round_done_def supervisor_execute_def new_state_def get_or_def)

section \<open>Language detection\<close>

text \<open>
  Claim C7. \<open>_detect_language\<close> tokenizes on whitespace: the empty text has no
  token, a non-empty text without whitespace is one token, and the tokens of a text with
  a whitespace character are those of the part before it followed by those of the part
  after it. It counts, per language, the tokens of the lower-cased text that are in the
  keyword list of the language, and returns the language with the highest count; ties go
  to Turkish before English before Italian: Turkish is returned exactly when its count
  is at least both others, English exactly when its count exceeds the Turkish one and is
  at least the Italian one, Italian exactly when its count exceeds both others. The
  empty query, where all counts are zero, gives Turkish. The result is a function of the
  text alone.
\<close>

theorem detect_language_tie_break:
  "py_split [] = [] \<and>
   (w \<noteq> [] \<and> (\<forall>c \<in> set w. \<not> is_space c) \<longrightarrow> py_split w = [w]) \<and>
   (is_space sp \<longrightarrow> py_split (a @ sp # b) = py_split a @ py_split b) \<and>
   (is_space sp \<longleftrightarrow>
      sp \<in> {9, 10, 11, 12, 13, 28, 29, 30, 31, 32, 133, 160, 5760, 8232, 8233, 8239, 8287, 12288}
        \<union> {8192..8202}) \<and>
   tr_score text = length (filter (\<lambda>w. w \<in> set turkish_indicators) (py_split (py_lower text))) \<and>
   en_score text = length (filter (\<lambda>w. w \<in> set english_indicators) (py_split (py_lower text))) \<and>
   it_score text = length (filter (\<lambda>w. w \<in> set italian_indicators) (py_split (py_lower text))) \<and>
   (detect_language text = u ''turkish'' \<longleftrightarrow>
      en_score text \<le> tr_score text \<and> it_score text \<le> tr_score text) \<and>
   (detect_language text = u ''english'' \<longleftrightarrow>
      tr_score text < en_score text \<and> it_score text \<le> en_score text) \<and>
   (detect_language text = u ''italian'' \<longleftrightarrow>
      tr_score text < it_score text \<and> en_score text < it_score text) \<and>
   detect_language [] = u ''turkish''"
proof -
  have split: "py_split [] = [] \<and>
   (w \<noteq> [] \<and> (\<forall>c \<in> set w. \<not> is_space c) \<longrightarrow> py_split w = [w]) \<and>
   (is_space sp \<longrightarrow> py_split (a @ sp # b) = py_split a @ py_split b)"
    by (simp add: py_split_word py_split_space) (simp add: py_split_def)
  have "tr_score text = length (filter (\<lambda>w. w \<in> set turkish_indicators) (py_split (py_lower text)))"
    and "en_score text = length (filter (\<lambda>w. w \<in> set english_indicators) (py_split (py_lower text)))"
    and "it_score text = length (filter (\<lambda>w. w \<in> set italian_indicators) (py_split (py_lower text)))"
    by (simp_all add: tr_score_def en_score_def it_score_def score_def)
  moreover have "(detect_language text = u ''turkish'' \<longleftrightarrow>
      en_score text \<le> tr_score text \<and> it_score text \<le> tr_score text) \<and>
   (detect_language text = u ''english'' \<longleftrightarrow>
      tr_score text < en_score text \<and> it_score text \<le> en_score text) \<and>
   (detect_language text = u ''italian'' \<longleftrightarrow>
      tr_score text < it_score text \<and> en_score text < it_score text) \<and>
   detect_language [] = u ''turkish''"
    using language_literals_distinct
    by (auto simp: detect_language_def scores_empty)
  ultimately show ?thesis
    using split is_space_iff [of sp] by blast
qed

lemmas score_defs = tr_score_def en_score_def it_score_def score_def turkish_indicators_def
  english_indicators_def italian_indicators_def

text \<open>
  A four-token English question with mixed case and a double blank, a tie between
  Turkish and English, a tie between English and Italian, an Italian text, and the token
  \<open>in\<close>, which is a keyword of all three languages.
\<close>

theorem detect_language_tie_break_witness:
  "py_split (py_lower (u ''What IS  the budget'')) = [u ''what'', u ''is'', u ''the'', u ''budget''] \<and>
   tr_score (u ''What IS  the budget'') = 0 \<and> en_score (u ''What IS  the budget'') = 4 \<and>
   it_score (u ''What IS  the budget'') = 0 \<and>
   detect_language (u ''What IS  the budget'') = u ''english'' \<and>
   tr_score (u ''bu is'') = 1 \<and> en_score (u ''bu is'') = 1 \<and> it_score (u ''bu is'') = 0 \<and>
   detect_language (u ''bu is'') = u ''turkish'' \<and>
   tr_score (u ''is il'') = 0 \<and> en_score (u ''is il'') = 1 \<and> it_score (u ''is il'') = 1 \<and>
   detect_language (u ''is il'') = u ''english'' \<and>
   tr_score (u ''che cosa is'') = 0 \<and> en_score (u ''che cosa is'') = 1 \<and>
   it_score (u ''che cosa is'') = 2 \<and>
   detect_language (u ''che cosa is'') = u ''italian'' \<and>
   tr_score (u ''in'') = 1 \<and> en_score (u ''in'') = 1 \<and> it_score (u ''in'') = 1 \<and>
   detect_language (u ''in'') = u ''turkish''"
proof -
  have t: "py_split (py_lower (u ''What IS  the budget''))
      = [u ''what'', u ''is'', u ''the'', u ''budget'']"
    by (simp add: str_defs)
  have s1: "tr_score (u ''What IS  the budget'') = 0" "en_score (u ''What IS  the budget'') = 4"
    "it_score (u ''What IS  the budget'') = 0"
    by (simp_all add: score_defs str_defs)
  have s2: "tr_score (u ''bu is'') = 1" "en_score (u ''bu is'') = 1" "it_score (u ''bu is'') = 0"
    by (simp_all add: score_defs str_defs)
  have s3: "tr_score (u ''is il'') = 0" "en_score (u ''is il'') = 1" "it_score (u ''is il'') = 1"
    by (simp_all add: score_defs str_defs)
  have s4: "tr_score (u ''che cosa is'') = 0" "en_score (u ''che cosa is'') = 1"
    "it_score (u ''che cosa is'') = 2"
    by (simp_all add: score_defs str_defs)
  have s5: "tr_score (u ''in'') = 1" "en_score (u ''in'') = 1" "it_score (u ''in'') = 1"
    by (simp_all add: score_defs str_defs)
  have "detect_language (u ''What IS  the budget'') = u ''english''"
    using detect_language_tie_break [of _ _ _ _ "u ''What IS  the budget''"] s1 by simp
  moreover have "detect_language (u ''bu is'') = u ''turkish''"
    using detect_language_tie_break [of _ _ _ _ "u ''bu is''"] s2 by simp
  moreover have "detect_language (u ''is il'') = u ''english''"
    using detect_language_tie_break [of _ _ _ _ "u ''is il''"] s3 by simp
  moreover have "detect_language (u ''che cosa is'') = u ''italian''"
    using detect_language_tie_break [of _ _ _ _ "u ''che cosa is''"] s4 by simp
  moreover have "detect_language (u ''in'') = u ''turkish''"
    using detect_language_tie_break [of _ _ _ _ "u ''in''"] s5 by simp
  ultimately show ?thesis
    using t s1 s2 s3 s4 s5 by simp
qed

section \<open>Relevance filter\<close>

text \<open>
  Claim C10. The relevance decision does not depend on the detected language: for every
  query and any two texts, \<open>_is_query_relevant\<close> gives the same answer with the language
  detected for either text. \<open>_detect_language\<close> returns one of \<open>turkish\<close>, \<open>english\<close>,
  \<open>italian\<close>, never \<open>tr\<close>, the only value that selects the Turkish greeting list; so the
  English greeting list is used for each of the three languages.
\<close>

theorem relevance_independent_of_language:
  "is_query_relevant q (detect_language t1) = is_query_relevant q (detect_language t2) \<and>
   detect_language t1 \<in> {u ''turkish'', u ''english'', u ''italian''} \<and>
   detect_language t1 \<noteq> u ''tr'' \<and>
   is_query_relevant q (u ''turkish'') = is_query_relevant q (u ''english'') \<and>
   is_query_relevant q (u ''italian'') = is_query_relevant q (u ''english'')"
proof -
  have r: "detect_language t \<in> {u ''turkish'', u ''english'', u ''italian''}" for t
    by (simp add: detect_language_def)
  have n: "detect_language t \<noteq> u ''tr''" for t
    using language_literals_distinct by (simp add: detect_language_def)
  have e: "l \<noteq> u ''tr'' \<Longrightarrow> is_query_relevant q l = is_query_relevant q (u ''english'')" for l
    using language_literals_distinct(5) by (simp add: is_query_relevant_def)
  show ?thesis
    using r [of t1] n [of t1] e [OF n [of t1]] e [OF n [of t2]]
      e [OF language_literals_distinct(4)] e [OF language_literals_distinct(6)]
    by simp
qed

text \<open>A Turkish and an English text as the two sources of the language value.\<close>

theorem relevance_independent_of_language_witness:
  "is_query_relevant (u ''merhaba'') (detect_language (u ''bu ne''))
     = is_query_relevant (u ''merhaba'') (detect_language (u ''what is this'')) \<and>
   is_query_relevant (u ''merhaba'') (u ''turkish'') = is_query_relevant (u ''merhaba'') (u ''english'')"
  using relevance_independent_of_language [of "u ''merhaba''" "u ''bu ne''" "u ''what is this''"]
  by simp

section \<open>Source tracker\<close>

text \<open>
  Claim C9. For every state the Source Tracker sets its completion flag to true, also
  on an empty document list, and writes as \<open>cited_response\<close> the answer it read from
  \<open>qa_response\<close> (the empty string when the key is absent), unchanged; it changes no
  other key than the flag, \<open>sources\<close> and \<open>cited_response\<close>. When the retrieved document
  list is empty, \<open>sources\<close> is the empty list.
\<close>

theorem source_tracker_pass_through:
  "source_tracking_performed (source_tracker_execute st) = Some True \<and>
   cited_response (source_tracker_execute st) = Some (get_or (qa_response st) []) \<and>
   source_tracker_execute st =
     st\<lparr> source_tracking_performed := Some True,
         sources := Some (extract_sources (get_or (retrieved_documents st) [])),
         cited_response := Some (get_or (qa_response st) []) \<rparr> \<and>
   (get_or (retrieved_documents st) [] = [] \<longrightarrow> sources (source_tracker_execute st) = Some [])"
  by (simp add: source_tracker_execute_def add_citations_def extract_sources_def Let_def)

theorem source_tracker_pass_through_witness:
  "get_or (retrieved_documents
      (new_state (u ''hello'')\<lparr> retrieved_documents := Some [], qa_response := Some (u ''answer'') \<rparr>))
      [] = [] \<and>
   sources (source_tracker_execute
      (new_state (u ''hello'')\<lparr> retrieved_documents := Some [], qa_response := Some (u ''answer'') \<rparr>))
     = Some [] \<and>
   cited_response (source_tracker_execute
      (new_state (u ''hello'')\<lparr> retrieved_documents := Some [], qa_response := Some (u ''answer'') \<rparr>))
     = Some (u ''answer'') \<and>
   source_tracking_performed (source_tracker_execute
      (new_state (u ''hello'')\<lparr> retrieved_documents := Some [], qa_response := Some (u ''answer'') \<rparr>))
     = Some True"
  using source_tracker_pass_through
    [of "new_state (u ''hello'')\<lparr> retrieved_documents := Some [], qa_response := Some (u ''answer'') \<rparr>"]
  by (simp add: new_state_def get_or_def extract_sources_def)

section \<open>Answer synthesizer\<close>

text \<open>
  Claim C8. If the stripped query has fewer than three tokens and its lower-cased text
  contains one of the fixed greetings, the QA agent stores the fixed out-of-scope
  message, sets \<open>qa_performed\<close> and sends no prompt to the model. Otherwise, if the
  retrieved document list is empty or the query is empty, it stores the fixed
  insufficient-information message, sets \<open>qa_performed\<close> and sends no prompt to the model.
  The number of tokens is that of the whitespace-separated words: stripping does not
  change it, it is 0 for the empty text, 1 for a non-empty text without whitespace, and
  for a text with a whitespace character the sum of the numbers before and after it.
  A greeting is contained when it occurs as a contiguous part of the text.
\<close>

theorem qa_short_circuits:
  fixes llm :: "'x llm" and st :: "'x state"
  shows
  "(length (py_split (py_strip (get_or (query st) []))) < 3 \<and>
    (\<exists>greeting \<in> set simple_greetings. in_str greeting (py_lower (get_or (query st) [])))
    \<longrightarrow> qa_execute llm st =
          (Inr (st\<lparr> qa_response := Some out_of_scope_message, qa_performed := Some True \<rparr>), [])) \<and>
   (\<not> (length (py_split (py_strip (get_or (query st) []))) < 3 \<and>
       (\<exists>greeting \<in> set simple_greetings. in_str greeting (py_lower (get_or (query st) [])))) \<and>
    (get_or (retrieved_documents st) [] = [] \<or> get_or (query st) [] = [])
    \<longrightarrow> qa_execute llm st =
          (Inr (st\<lparr> qa_response := Some insufficient_message, qa_performed := Some True \<rparr>), [])) \<and>
   length (py_split (py_strip q)) = length (py_split q) \<and>
   length (py_split []) = 0 \<and>
   (w \<noteq> [] \<and> (\<forall>c \<in> set w. \<not> is_space c) \<longrightarrow> length (py_split w) = 1) \<and>
   (is_space sp \<longrightarrow> length (py_split (a @ sp # b)) = length (py_split a) + length (py_split b)) \<and>
   (is_space sp \<longleftrightarrow>
      sp \<in> {9, 10, 11, 12, 13, 28, 29, 30, 31, 32, 133, 160, 5760, 8232, 8233, 8239, 8287, 12288}
        \<union> {8192..8202}) \<and>
   (in_str g s \<longleftrightarrow> (\<exists>x y. s = x @ g @ y)) \<and>
   simple_greetings =
     [u ''hello'', u ''hi'', u ''hey'', u ''merhaba'', u ''selam'', u ''ciao'', u ''salve''] \<and>
   out_of_scope_message =
     u ''I'' @ [39] @ u ''m designed to answer questions about AMIF grant documents. '' @
     u ''Please ask me about grant procedures, eligibility criteria, '' @
     u ''or application requirements.'' \<and>
   insufficient_message =
     u ''I couldn'' @ [39] @ u ''t find sufficient information to answer your question.'' \<and>
   out_of_scope_message \<noteq> insufficient_message"
proof -
  have fixed: "simple_greetings =
     [u ''hello'', u ''hi'', u ''hey'', u ''merhaba'', u ''selam'', u ''ciao'', u ''salve''] \<and>
   out_of_scope_message =
     u ''I'' @ [39] @ u ''m designed to answer questions about AMIF grant documents. '' @
     u ''Please ask me about grant procedures, eligibility criteria, '' @
     u ''or application requirements.'' \<and>
   insufficient_message =
     u ''I couldn'' @ [39] @ u ''t find sufficient information to answer your question.'' \<and>
   out_of_scope_message \<noteq> insufficient_message"
    by (simp add: simple_greetings_def out_of_scope_message_def insufficient_message_def)
       (simp add: u_def)
  have "(length (py_split (py_strip (get_or (query st) []))) < 3 \<and>
    (\<exists>greeting \<in> set simple_greetings. in_str greeting (py_lower (get_or (query st) [])))
    \<longrightarrow> qa_execute llm st =
          (Inr (st\<lparr> qa_response := Some out_of_scope_message, qa_performed := Some True \<rparr>), [])) \<and>
   (\<not> (length (py_split (py_strip (get_or (query st) []))) < 3 \<and>
       (\<exists>greeting \<in> set simple_greetings. in_str greeting (py_lower (get_or (query st) [])))) \<and>
    (get_or (retrieved_documents st) [] = [] \<or> get_or (query st) [] = [])
    \<longrightarrow> qa_execute llm st =
          (Inr (st\<lparr> qa_response := Some insufficient_message, qa_performed := Some True \<rparr>), []))"
    by (auto simp: qa_execute_def Let_def list_ex_iff)
  moreover have "length (py_split (py_strip q)) = length (py_split q)"
    by (simp add: py_split_strip)
  moreover have "length (py_split []) = 0"
    by (simp add: py_split_def)
  moreover have "w \<noteq> [] \<and> (\<forall>c \<in> set w. \<not> is_space c) \<longrightarrow> length (py_split w) = 1"
    by (simp add: py_split_word)
  moreover have "is_space sp \<longrightarrow>
      length (py_split (a @ sp # b)) = length (py_split a) + length (py_split b)"
    by (simp add: py_split_space)
  ultimately show ?thesis
    using is_space_iff [of sp] in_str_iff [of g s] fixed by blast
qed

text \<open>
  Under a model that would raise if it were called: a greeting alone; a two-word greeting
  with blanks around it and a retrieved document; a greeting in a three-word query and a
  four-word question containing \<open>hi\<close>, both without documents, which are past the first
  short-circuit and take the second; a four-word question without documents.
\<close>

theorem qa_short_circuits_witness:
  "qa_execute failing_llm (new_state (u ''hello'')) =
     (Inr (new_state (u ''hello'')\<lparr> qa_response := Some out_of_scope_message,
                                      qa_performed := Some True \<rparr>), []) \<and>
   length (py_split (py_strip (u '' hello there ''))) = 2 \<and>
   qa_execute failing_llm
     (new_state (u '' hello there '')
        \<lparr> retrieved_documents := Some [to_dict (chunk (u ''a.pdf'') (u ''1'') (u ''text''))] \<rparr>) =
     (Inr (new_state (u '' hello there '')
        \<lparr> retrieved_documents := Some [to_dict (chunk (u ''a.pdf'') (u ''1'') (u ''text''))],
          qa_response := Some out_of_scope_message, qa_performed := Some True \<rparr>), []) \<and>
   length (py_split (py_strip (u ''hello my friend''))) = 3 \<and>
   in_str (u ''hello'') (py_lower (u ''hello my friend'')) \<and>
   qa_execute failing_llm (new_state (u ''hello my friend'')) =
     (Inr (new_state (u ''hello my friend'')\<lparr> qa_response := Some insufficient_message,
                                      qa_performed := Some True \<rparr>), []) \<and>
   length (py_split (py_strip (u ''which grant is this''))) = 4 \<and>
   in_str (u ''hi'') (py_lower (u ''which grant is this'')) \<and>
   qa_execute failing_llm (new_state (u ''which grant is this'')) =
     (Inr (new_state (u ''which grant is this'')\<lparr> qa_response := Some insufficient_message,
                                      qa_performed := Some True \<rparr>), []) \<and>
   qa_execute failing_llm (new_state (u ''what is the budget'')) =
     (Inr (new_state (u ''what is the budget'')\<lparr> qa_response := Some insufficient_message,
                                      qa_performed := Some True \<rparr>), [])"
proof -
  have n: "length (py_split (py_strip (u '' hello there ''))) = 2"
    "length (py_split (py_strip (u ''hello my friend''))) = 3"
    "length (py_split (py_strip (u ''which grant is this''))) = 4"
    by (simp_all add: str_defs)
  have g: "in_str (u ''hello'') (py_lower (u ''hello my friend''))"
    "in_str (u ''hi'') (py_lower (u ''which grant is this''))"
    by (simp_all add: str_defs)
  have "qa_execute failing_llm (new_state (u ''hello'')) =
     (Inr (new_state (u ''hello'')\<lparr> qa_response := Some out_of_scope_message,
                                      qa_performed := Some True \<rparr>), [])"
    using qa_short_circuits [of "new_state (u ''hello'')" failing_llm]
    by (simp add: new_state_def get_or_def simple_greetings_def str_defs)
  moreover have "qa_execute failing_llm
     (new_state (u '' hello there '')
        \<lparr> retrieved_documents := Some [to_dict (chunk (u ''a.pdf'') (u ''1'') (u ''text''))] \<rparr>) =
     (Inr (new_state (u '' hello there '')
        \<lparr> retrieved_documents := Some [to_dict (chunk (u ''a.pdf'') (u ''1'') (u ''text''))],
          qa_response := Some out_of_scope_message, qa_performed := Some True \<rparr>), [])"
    using qa_short_circuits [of "new_state (u '' hello there '')
        \<lparr> retrieved_documents := Some [to_dict (chunk (u ''a.pdf'') (u ''1'') (u ''text''))] \<rparr>"
        failing_llm]
    by (simp add: new_state_def get_or_def simple_greetings_def str_defs)
  moreover have "qa_execute failing_llm (new_state (u ''hello my friend'')) =
     (Inr (new_state (u ''hello my friend'')\<lparr> qa_response := Some insufficient_message,
                                      qa_performed := Some True \<rparr>), [])"
    using qa_short_circuits [of "new_state (u ''hello my friend'')" failing_llm]
    by (simp add: new_state_def get_or_def simple_greetings_def str_defs)
  moreover have "qa_execute failing_llm (new_state (u ''which grant is this'')) =
     (Inr (new_state (u ''which grant is this'')\<lparr> qa_response := Some insufficient_message,
                                      qa_performed := Some True \<rparr>), [])"
    using qa_short_circuits [of "new_state (u ''which grant is this'')" failing_llm]
    by (simp add: new_state_def get_or_def simple_greetings_def str_defs)
  moreover have "qa_execute failing_llm (new_state (u ''what is the budget'')) =
     (Inr (new_state (u ''what is the budget'')\<lparr> qa_response := Some insufficient_message,
                                      qa_performed := Some True \<rparr>), [])"
    using qa_short_circuits [of "new_state (u ''what is the budget'')" failing_llm]
    by (simp add: new_state_def get_or_def simple_greetings_def str_defs)
  ultimately show ?thesis
    using n g by blast
qed

section \<open>Failure of the language model\<close>

text \<open>
  Claim C5. A failing model call is handled differently by the two agents. In the QA
  agent, past the two short-circuits, the exception of the call leaves \<open>execute\<close>
  uncaught: no state is returned and neither \<open>qa_response\<close> nor \<open>qa_performed\<close> is
  set. In the Cross-Document Reasoner the same failure is caught: the comparison of two
  or more groups returns an object tagged \<open>error\<close> whose analysis carries the exception
  message, and the synthesis returns an error string with the message in place of the
  answer; neither raises.
\<close>

theorem llm_failure_asymmetry:
  fixes llm :: "'x llm" and st :: "'x state"
  shows
  "(\<not> (length (py_split (py_strip (get_or (query st) []))) < 3 \<and>
       (\<exists>greeting \<in> set simple_greetings. in_str greeting (py_lower (get_or (query st) [])))) \<and>
    get_or (retrieved_documents st) [] \<noteq> [] \<and> get_or (query st) [] \<noteq> [] \<and>
    llm (QA_prompt (get_or (retrieved_documents st) []) (cross_document_analysis st)
           (get_or (query st) [])) = Inl e
    \<longrightarrow> qa_execute llm st =
          (Inl e, [QA_prompt (get_or (retrieved_documents st) []) (cross_document_analysis st)
                     (get_or (query st) [])])) \<and>
   (2 \<le> length grant_groups \<and>
    llm (Comparison_prompt (map summarize grant_groups) q) = Inl e
    \<longrightarrow> perform_cross_grant_comparison llm grant_groups q =
          (\<lparr> comparison_type = u ''error'',
              analysis = u ''Kar'' @ [351, 305] @ u ''la'' @ [351] @ u ''t'' @ [305] @
                         u ''rma hatas'' @ [305] @ u '': '' @ exn_str e,
              grants_compared = Some (map fst grant_groups), total_documents = None \<rparr>,
           [Comparison_prompt (map summarize grant_groups) q])) \<and>
   (llm (Synthesis_prompt
           (map (\<lambda>(grant_id, docs). (grant_id, map excerpt docs)) grant_groups) q) = Inl e
    \<longrightarrow> fst (synthesize_cross_document_answer llm documents q grant_groups) =
          u ''Belge sentezi hatas'' @ [305] @ u '': '' @ exn_str e)"
  by (auto simp: qa_execute_def perform_cross_grant_comparison_def
      synthesize_cross_document_answer_def Let_def list_ex_iff)

text \<open>A four-word question with one retrieved chunk, and two groups of one chunk each,
  under a model whose every call raises.\<close>

theorem llm_failure_asymmetry_witness:
  "qa_execute failing_llm
     (new_state (u ''what is the budget'')
        \<lparr> retrieved_documents := Some [to_dict (chunk (u ''a.pdf'') (u ''1'') (u ''text''))] \<rparr>)
     = (Inl (Exn (u ''rate limit'')),
        [QA_prompt [to_dict (chunk (u ''a.pdf'') (u ''1'') (u ''text''))] None
           (u ''what is the budget'')]) \<and>
   comparison_type (fst (perform_cross_grant_comparison failing_llm
       [(u ''WOMEN'', [to_dict (chunk (u ''a.pdf'') (u ''1'') (u ''text''))]),
        (u ''CHILDREN'', [to_dict (chunk (u ''b.pdf'') (u ''1'') (u ''text''))])]
       (u ''what is the budget''))) = u ''error'' \<and>
   fst (synthesize_cross_document_answer failing_llm []
       (u ''what is the budget'')
       [(u ''WOMEN'', [to_dict (chunk (u ''a.pdf'') (u ''1'') (u ''text''))]),
        (u ''CHILDREN'', [to_dict (chunk (u ''b.pdf'') (u ''1'') (u ''text''))])])
     = u ''Belge sentezi hatas'' @ [305] @ u '': rate limit''"
  using llm_failure_asymmetry
    [of "new_state (u ''what is the budget'')
        \<lparr> retrieved_documents := Some [to_dict (chunk (u ''a.pdf'') (u ''1'') (u ''text''))] \<rparr>"
        failing_llm "Exn (u ''rate limit'')"
        "[(u ''WOMEN'', [to_dict (chunk (u ''a.pdf'') (u ''1'') (u ''text''))]),
          (u ''CHILDREN'', [to_dict (chunk (u ''b.pdf'') (u ''1'') (u ''text''))])]"
        "u ''what is the budget''" "[]"]
  by (simp add: new_state_def get_or_def failing_llm_def simple_greetings_def str_defs)

section \<open>Keeping the first occurrence of each key\<close>

lemma keep_first_fresh: "x \<in> set (keep_first key seen xs) \<Longrightarrow> x \<in> set xs \<and> key x \<notin> seen"
  by (induction xs arbitrary: seen) (auto split: if_splits)

lemma keep_first_distinct: "distinct (map key (keep_first key seen xs))"
  by (induction xs arbitrary: seen) (auto dest: keep_first_fresh)

lemma keep_first_keys: "key ` set (keep_first key seen xs) = key ` set xs - seen"
  by (induction xs arbitrary: seen) auto

lemma keep_first_subseq: "subseq (keep_first key seen xs) xs"
  by (induction xs arbitrary: seen) auto

lemma keep_first_length: "length (keep_first key seen xs) \<le> length xs"
  by (induction xs arbitrary: seen) (auto intro: le_SucI)

lemma keep_first_is_first:
  "d \<in> set (keep_first key seen xs) \<Longrightarrow> find (\<lambda>y. key y = key d) xs = Some d"
proof (induction xs arbitrary: seen)
  case Nil
  then show ?case by simp
next
  case (Cons x xs)
  show ?case
  proof (cases "key x \<in> seen")
    case True
    with Cons.prems have d: "d \<in> set (keep_first key seen xs)" by simp
    from keep_first_fresh [OF d] True have "key x \<noteq> key d" by auto
    with Cons.IH [OF d] show ?thesis by simp
  next
    case False
    show ?thesis
    proof (cases "d = x")
      case True
      then show ?thesis by simp
    next
      case neq: False
      with Cons.prems False have d: "d \<in> set (keep_first key (insert (key x) seen) xs)" by simp
      from keep_first_fresh [OF d] have "key x \<noteq> key d" by auto
      with Cons.IH [OF d] show ?thesis by simp
    qed
  qed
qed

lemma keep_first_append:
  "keep_first key seen (xs @ ys) =
     keep_first key seen xs @ keep_first key (seen \<union> key ` set xs) ys"
  by (induction xs arbitrary: seen) (auto simp: insert_absorb)

lemma keep_first_id:
  "distinct (map key xs) \<Longrightarrow> key ` set xs \<inter> seen = {} \<Longrightarrow> keep_first key seen xs = xs"
  by (induction xs arbitrary: seen) auto

lemma keep_first_idem: "keep_first key {} (keep_first key {} xs) = keep_first key {} xs"
  by (rule keep_first_id) (simp_all add: keep_first_distinct)

lemma fold_extract_step:
  "fold extract_step docs (seen, acc) =
     (seen \<union> source_key ` set docs, acc @ map make_citation (keep_first source_key seen docs))"
  by (induction docs arbitrary: seen acc) (auto simp: extract_step_def)

lemma extract_sources_keep_first:
  "extract_sources docs = map make_citation (keep_first source_key {} docs)"
  by (simp add: extract_sources_def fold_extract_step)

lemma source_tracker_execute_eq:
  "source_tracker_execute st =
     st\<lparr> source_tracking_performed := Some True,
         sources := Some (extract_sources (get_or (retrieved_documents st) [])),
         cited_response := Some (get_or (qa_response st) []) \<rparr>"
  by (simp add: source_tracker_execute_def add_citations_def extract_sources_def Let_def)

section \<open>Citation deduplication\<close>

lemma keep_first_covers:
  "d \<in> set xs \<Longrightarrow> key d \<notin> seen \<Longrightarrow> \<exists>k \<in> set (keep_first key seen xs). key k = key d"
  using keep_first_keys [of key seen xs] by (metis DiffI image_eqI imageE)

text \<open>
  Claim C4. The deduplication key of a document is the pair of its clean source (the
  source path without \<open>data/raw/\<close> and \<open>.pdf\<close>, the file name when that is empty) and its
  page number (\<open>page_number\<close>, else \<open>page\<close>, else the empty string). For every document
  list, the citations of the Source Tracker are built from the documents that are the
  first occurrence of their key, in input order: no two of them agree in both clean
  source and page number, every key of the input is present, so every input document
  has a citation with its clean source and its page, and the list is at most as long as
  the input. The extraction is idempotent: on the documents it kept it gives the same
  citations, and running the Source Tracker on its own output state gives the same
  state, so the same citation list.
\<close>

theorem citation_deduplication:
  "extract_sources docs = map make_citation (keep_first source_key {} docs) \<and>
   distinct (map source_key (keep_first source_key {} docs)) \<and>
   subseq (keep_first source_key {} docs) docs \<and>
   source_key ` set (keep_first source_key {} docs) = source_key ` set docs \<and>
   (\<forall>d \<in> set (keep_first source_key {} docs).
      find (\<lambda>y. source_key y = source_key d) docs = Some d) \<and>
   map clean_source (extract_sources docs)
     = map (\<lambda>d. fst (source_key d)) (keep_first source_key {} docs) \<and>
   length (extract_sources docs) \<le> length docs \<and>
   extract_sources (keep_first source_key {} docs) = extract_sources docs \<and>
   source_tracker_execute (source_tracker_execute st) = source_tracker_execute st \<and>
   source_key doc = (clean_source_of doc, page_number_of doc) \<and>
   clean_source_of doc =
     (if replace_empty (u ''.pdf'')
           (replace_empty (u ''data/raw/'') (get_or (md_source (doc_metadata doc)) [])) = []
      then get_or (md_filename (doc_metadata doc)) (u ''Bilinmeyen'')
      else replace_empty (u ''.pdf'')
             (replace_empty (u ''data/raw/'') (get_or (md_source (doc_metadata doc)) []))) \<and>
   page_number_of doc =
     (case md_page_number (doc_metadata doc) of
        Some n \<Rightarrow> n | None \<Rightarrow> get_or (md_page (doc_metadata doc)) []) \<and>
   distinct (map (\<lambda>d. (clean_source_of d, page_number_of d)) (keep_first source_key {} docs)) \<and>
   (\<forall>i < length (keep_first source_key {} docs). \<forall>j < length (keep_first source_key {} docs).
      i \<noteq> j \<longrightarrow>
        clean_source_of (keep_first source_key {} docs ! i)
          \<noteq> clean_source_of (keep_first source_key {} docs ! j) \<or>
        page_number_of (keep_first source_key {} docs ! i)
          \<noteq> page_number_of (keep_first source_key {} docs ! j)) \<and>
   map page (extract_sources docs)
     = map (\<lambda>d. if page_number_of d \<noteq> [] then u ''Sayfa '' @ page_number_of d
                 else u ''Sayfa bilinmiyor'') (keep_first source_key {} docs) \<and>
   (\<forall>d \<in> set docs. \<exists>c \<in> set (extract_sources docs).
      clean_source c = clean_source_of d \<and>
      page c = (if page_number_of d \<noteq> [] then u ''Sayfa '' @ page_number_of d
                else u ''Sayfa bilinmiyor''))"
proof -
  let ?kept = "keep_first source_key {} docs"
  have old: "extract_sources docs = map make_citation ?kept \<and>
   distinct (map source_key ?kept) \<and>
   subseq ?kept docs \<and>
   source_key ` set ?kept = source_key ` set docs \<and>
   (\<forall>d \<in> set ?kept. find (\<lambda>y. source_key y = source_key d) docs = Some d) \<and>
   map clean_source (extract_sources docs) = map (\<lambda>d. fst (source_key d)) ?kept \<and>
   length (extract_sources docs) \<le> length docs \<and>
   extract_sources ?kept = extract_sources docs \<and>
   source_tracker_execute (source_tracker_execute st) = source_tracker_execute st"
  proof (intro conjI)
    show "extract_sources docs = map make_citation ?kept"
      by (rule extract_sources_keep_first)
    show "distinct (map source_key ?kept)"
      by (rule keep_first_distinct)
    show "subseq ?kept docs"
      by (rule keep_first_subseq)
    show "source_key ` set ?kept = source_key ` set docs"
      by (simp add: keep_first_keys)
    show "\<forall>d \<in> set ?kept. find (\<lambda>y. source_key y = source_key d) docs = Some d"
      by (blast intro: keep_first_is_first)
    show "map clean_source (extract_sources docs) = map (\<lambda>d. fst (source_key d)) ?kept"
      by (simp add: extract_sources_keep_first make_citation_def source_key_def)
    show "length (extract_sources docs) \<le> length docs"
      by (simp add: extract_sources_keep_first keep_first_length)
    show "extract_sources ?kept = extract_sources docs"
      by (simp add: extract_sources_keep_first keep_first_idem)
    show "source_tracker_execute (source_tracker_execute st) = source_tracker_execute st"
      by (simp add: source_tracker_execute_eq)
  qed
  have key: "source_key doc = (clean_source_of doc, page_number_of doc)"
    by (simp add: source_key_def)
  have cs: "clean_source_of doc =
     (if replace_empty (u ''.pdf'')
           (replace_empty (u ''data/raw/'') (get_or (md_source (doc_metadata doc)) [])) = []
      then get_or (md_filename (doc_metadata doc)) (u ''Bilinmeyen'')
      else replace_empty (u ''.pdf'')
             (replace_empty (u ''data/raw/'') (get_or (md_source (doc_metadata doc)) [])))"
    by (simp add: clean_source_of_def Let_def)
  have pn: "page_number_of doc =
     (case md_page_number (doc_metadata doc) of
        Some n \<Rightarrow> n | None \<Rightarrow> get_or (md_page (doc_metadata doc)) [])"
    by (simp add: page_number_of_def Let_def)
  have dist: "distinct (map (\<lambda>d. (clean_source_of d, page_number_of d)) ?kept)"
    using keep_first_distinct [of source_key "{}" docs] by (simp add: source_key_def [abs_def])
  have pair: "\<forall>i < length ?kept. \<forall>j < length ?kept.
      i \<noteq> j \<longrightarrow>
        clean_source_of (?kept ! i) \<noteq> clean_source_of (?kept ! j) \<or>
        page_number_of (?kept ! i) \<noteq> page_number_of (?kept ! j)"
    using dist by (auto simp: distinct_conv_nth)
  have pg: "map page (extract_sources docs)
     = map (\<lambda>d. if page_number_of d \<noteq> [] then u ''Sayfa '' @ page_number_of d
                 else u ''Sayfa bilinmiyor'') ?kept"
    by (simp add: extract_sources_keep_first make_citation_def)
  have cov: "\<forall>d \<in> set docs. \<exists>c \<in> set (extract_sources docs).
      clean_source c = clean_source_of d \<and>
      page c = (if page_number_of d \<noteq> [] then u ''Sayfa '' @ page_number_of d
                else u ''Sayfa bilinmiyor'')"
  proof
    fix d assume "d \<in> set docs"
    then obtain k where k: "k \<in> set ?kept" "source_key k = source_key d"
      using keep_first_covers [of d docs source_key "{}"] by auto
    then have "clean_source_of k = clean_source_of d" "page_number_of k = page_number_of d"
      by (simp_all add: source_key_def)
    moreover from k have "make_citation k \<in> set (extract_sources docs)"
      by (simp add: extract_sources_keep_first)
    ultimately show "\<exists>c \<in> set (extract_sources docs).
      clean_source c = clean_source_of d \<and>
      page c = (if page_number_of d \<noteq> [] then u ''Sayfa '' @ page_number_of d
                else u ''Sayfa bilinmiyor'')"
      by (intro bexI [of _ "make_citation k"]) (simp_all add: make_citation_def)
  qed
  from old key cs pn dist pair pg cov show ?thesis by blast
qed

lemmas tracker_defs = source_key_def clean_source_of_def page_number_of_def doc_metadata_def
  to_dict_def chunk_def empty_metadata_def get_or_def

text \<open>The third chunk repeats the key of the first; the fourth differs in the page only.\<close>

theorem citation_deduplication_witness:
  "keep_first source_key {} example_documents
     = [to_dict (chunk (u ''data/raw/a.pdf'') (u ''1'') (u ''first'')),
        to_dict (chunk (u ''data/raw/b.pdf'') (u ''2'') (u ''second'')),
        to_dict (chunk (u ''data/raw/a.pdf'') (u ''2'') (u ''fourth''))] \<and>
   map source_key example_documents
     = [(u ''a'', u ''1''), (u ''b'', u ''2''), (u ''a'', u ''1''), (u ''a'', u ''2'')] \<and>
   map clean_source (extract_sources example_documents) = [u ''a'', u ''b'', u ''a''] \<and>
   map page (extract_sources example_documents) = [u ''Sayfa 1'', u ''Sayfa 2'', u ''Sayfa 2''] \<and>
   map cit_content (extract_sources example_documents)
     = [u ''first...'', u ''second...'', u ''fourth...''] \<and>
   find (\<lambda>y. source_key y = source_key (to_dict (chunk (u ''data/raw/a.pdf'') (u ''1'') (u ''first''))))
     example_documents = Some (to_dict (chunk (u ''data/raw/a.pdf'') (u ''1'') (u ''first'')))"
proof -
  have sk: "map source_key example_documents
     = [(u ''a'', u ''1''), (u ''b'', u ''2''), (u ''a'', u ''1''), (u ''a'', u ''2'')]"
    by (simp add: example_documents_def tracker_defs str_defs)
  have k: "keep_first source_key {} example_documents
     = [to_dict (chunk (u ''data/raw/a.pdf'') (u ''1'') (u ''first'')),
        to_dict (chunk (u ''data/raw/b.pdf'') (u ''2'') (u ''second'')),
        to_dict (chunk (u ''data/raw/a.pdf'') (u ''2'') (u ''fourth''))]"
    by (simp add: example_documents_def tracker_defs str_defs)
  have c: "map (\<lambda>d. fst (source_key d))
      [to_dict (chunk (u ''data/raw/a.pdf'') (u ''1'') (u ''first'')),
       to_dict (chunk (u ''data/raw/b.pdf'') (u ''2'') (u ''second'')),
       to_dict (chunk (u ''data/raw/a.pdf'') (u ''2'') (u ''fourth''))] = [u ''a'', u ''b'', u ''a'']"
    by (simp add: tracker_defs str_defs)
  have p: "map (\<lambda>d. if page_number_of d \<noteq> [] then u ''Sayfa '' @ page_number_of d
                 else u ''Sayfa bilinmiyor'')
      [to_dict (chunk (u ''data/raw/a.pdf'') (u ''1'') (u ''first'')),
       to_dict (chunk (u ''data/raw/b.pdf'') (u ''2'') (u ''second'')),
       to_dict (chunk (u ''data/raw/a.pdf'') (u ''2'') (u ''fourth''))]
      = [u ''Sayfa 1'', u ''Sayfa 2'', u ''Sayfa 2'']"
    by (simp add: tracker_defs str_defs)
  have cc: "map cit_content (map make_citation
      [to_dict (chunk (u ''data/raw/a.pdf'') (u ''1'') (u ''first'')),
       to_dict (chunk (u ''data/raw/b.pdf'') (u ''2'') (u ''second'')),
       to_dict (chunk (u ''data/raw/a.pdf'') (u ''2'') (u ''fourth''))])
      = [u ''first...'', u ''second...'', u ''fourth...'']"
    by (simp add: make_citation_def tracker_defs str_defs)
  note t = citation_deduplication [of example_documents "new_state (u ''hello'')"]
  from t have e: "extract_sources example_documents
      = map make_citation (keep_first source_key {} example_documents)"
    by (rule conjunct1)
  from t have f: "\<forall>d \<in> set (keep_first source_key {} example_documents).
      find (\<lambda>y. source_key y = source_key d) example_documents = Some d"
    by blast
  from t have m: "map clean_source (extract_sources example_documents)
     = map (\<lambda>d. fst (source_key d)) (keep_first source_key {} example_documents)"
    by blast
  from t have g: "map page (extract_sources example_documents)
     = map (\<lambda>d. if page_number_of d \<noteq> [] then u ''Sayfa '' @ page_number_of d
                 else u ''Sayfa bilinmiyor'') (keep_first source_key {} example_documents)"
    by blast
  from f have "find (\<lambda>y. source_key y
        = source_key (to_dict (chunk (u ''data/raw/a.pdf'') (u ''1'') (u ''first''))))
     example_documents = Some (to_dict (chunk (u ''data/raw/a.pdf'') (u ''1'') (u ''first'')))"
    by (simp add: k)
  moreover from m have "map clean_source (extract_sources example_documents) = [u ''a'', u ''b'', u ''a'']"
    by (simp only: k c)
  moreover from g have "map page (extract_sources example_documents)
      = [u ''Sayfa 1'', u ''Sayfa 2'', u ''Sayfa 2'']"
    by (simp only: k p)
  moreover from cc have "map cit_content (extract_sources example_documents)
     = [u ''first...'', u ''second...'', u ''fourth...'']"
    by (simp only: e k)
  ultimately show ?thesis using k sk by blast
qed

section \<open>The searches of the retriever\<close>

lemma source_of_to_dict: "source_of (to_dict d) = get_or (md_source (sd_metadata d)) []"
  by (simp add: source_of_def to_dict_def doc_metadata_def get_or_def)

lemma fold_add_result:
  "fold add_result rs (seen, acc) =
     (seen \<union> source_of ` set (map to_dict rs), acc @ keep_first source_of seen (map to_dict rs))"
  by (induction rs arbitrary: seen acc) (auto simp: add_result_def source_of_to_dict Let_def)

lemma fold_grant_search:
  "fold (grant_search vs) gts ((seen, acc), calls) =
     ((seen \<union> source_of ` set (map to_dict (concat (map (\<lambda>g. search_documents vs (search_terms g) 4) gts))),
       acc @ keep_first source_of seen
               (map to_dict (concat (map (\<lambda>g. search_documents vs (search_terms g) 4) gts)))),
      calls @ map (\<lambda>g. (search_terms g, 4)) gts)"
proof (induction gts arbitrary: seen acc calls)
  case Nil
  then show ?case by simp
next
  case (Cons g gts)
  have step: "grant_search vs g ((seen, acc), calls) =
      ((seen \<union> source_of ` set (map to_dict (search_documents vs (search_terms g) 4)),
        acc @ keep_first source_of seen (map to_dict (search_documents vs (search_terms g) 4))),
       calls @ [(search_terms g, 4)])"
    by (simp add: grant_search_def fold_add_result Let_def)
  have "fold (grant_search vs) (g # gts) ((seen, acc), calls) =
      fold (grant_search vs) gts (grant_search vs g ((seen, acc), calls))"
    by simp
  also have "\<dots> = fold (grant_search vs) gts
      ((seen \<union> source_of ` set (map to_dict (search_documents vs (search_terms g) 4)),
        acc @ keep_first source_of seen (map to_dict (search_documents vs (search_terms g) 4))),
       calls @ [(search_terms g, 4)])"
    by (simp only: step)
  finally show ?case
    by (simp add: Cons.IH keep_first_append Un_assoc image_Un)
qed

lemma perform_multi_search_eq:
  "perform_multi_search vs q gts =
     (keep_first source_of {} (search_results vs q gts),
      (q, 6) # map (\<lambda>g. (search_terms g, 4)) gts)"
proof (cases "gts = []")
  case True
  then show ?thesis
    by (simp add: perform_multi_search_def search_results_def fold_add_result Let_def)
next
  case False
  then show ?thesis
    by (simp add: perform_multi_search_def search_results_def fold_add_result
        fold_grant_search keep_first_append Let_def)
qed

lemma retrieve_eq:
  "retrieve vs q =
     (if 2 \<le> length (extract_grant_types_from_query q)
      then (Inr (keep_first source_of {} (search_results vs q (extract_grant_types_from_query q)),
                 extract_grant_types_from_query q),
            (q, 6) # map (\<lambda>g. (search_terms g, 4)) (extract_grant_types_from_query q))
      else (Inr (map to_dict (search_documents vs q 8), extract_grant_types_from_query q),
            [(q, 8)]))"
  by (simp add: retrieve_def perform_multi_search_eq Let_def)

lemma grant_types_known:
  "set (extract_grant_types_from_query q)
     \<subseteq> {u ''women'', u ''children'', u ''health'', u ''digital'', u ''pathways''}"
proof -
  have "set (extract_grant_types_from_query q) \<subseteq> set (map fst grant_mappings)"
    unfolding extract_grant_types_from_query_def Let_def by auto
  also have "set (map fst grant_mappings)
      = {u ''women'', u ''children'', u ''health'', u ''digital'', u ''pathways''}"
    by (simp add: grant_mappings_def)
  finally show ?thesis .
qed

lemma search_terms_known:
  "g \<in> {u ''women'', u ''children'', u ''health'', u ''digital'', u ''pathways''} \<Longrightarrow>
   search_terms g = u ''AMIF-2025 '' @ py_upper g @ u '' grant eligibility criteria budget''"
  by (auto simp: search_terms_def search_terms_table_def str_defs)

lemma retriever_execute_eq:
  fixes st :: "'x state"
  assumes "get_or (query st) [] = q" "q \<noteq> []" "is_query_relevant q (detect_language q)"
    and "fst (retrieve vs q) = Inr (docs, gts)"
  shows "retriever_execute vs st =
     (st\<lparr> detected_language := Some (detect_language q),
          retrieved_documents := Some docs, retrieval_performed := Some True,
          grant_types_detected := Some gts \<rparr>, snd (retrieve vs q))"
  using assms by (cases "retrieve vs q") (simp add: retriever_execute_def Let_def)

lemma search_documents_raises: "isl (vs q k) \<Longrightarrow> search_documents vs q k = []"
  by (cases "vs q k") (simp_all add: search_documents_def)

lemma comparison_query_types:
  "extract_grant_types_from_query (u ''women and children grant'') = [u ''women'', u ''children'']"
  by (simp add: extract_grant_types_from_query_def grant_mappings_def str_defs)

lemma comparison_query_language:
  "detect_language (u ''women and children grant'') = u ''english''"
  by (simp add: detect_language_def tr_score_def en_score_def it_score_def score_def
      turkish_indicators_def english_indicators_def italian_indicators_def str_defs)

lemma comparison_query_relevant:
  "is_query_relevant (u ''women and children grant'') (u ''english'')"
  by (simp add: is_query_relevant_def irrelevant_patterns_en_def grant_keywords_tr_def
      grant_keywords_en_def str_defs)

lemma comparison_search_terms:
  "search_terms (u ''women'') = u ''AMIF-2025 WOMEN grant eligibility criteria budget''"
  "search_terms (u ''children'') = u ''AMIF-2025 CHILDREN grant eligibility criteria budget''"
  by (simp_all add: search_terms_def search_terms_table_def u_def)

lemma retrieve_never_raises: "\<not> isl (fst (retrieve vs q))"
  by (simp add: retrieve_eq)

lemma retriever_execute_cases:
  fixes st :: "'x state"
  shows "snd (retriever_execute vs st) =
     (if get_or (query st) [] = [] \<or>
         \<not> is_query_relevant (get_or (query st) []) (detect_language (get_or (query st) []))
      then [] else snd (retrieve vs (get_or (query st) []))) \<and>
     retrieval_performed (fst (retriever_execute vs st)) = Some True \<and>
     (get_or (query st) [] = [] \<or>
         \<not> is_query_relevant (get_or (query st) []) (detect_language (get_or (query st) []))
      \<longrightarrow> retrieved_documents (fst (retriever_execute vs st)) = Some [])"
  by (cases "retrieve vs (get_or (query st) [])"; cases "fst (retrieve vs (get_or (query st) []))")
     (auto simp: retriever_execute_def Let_def)

lemmas retriever_defs = source_of_def doc_metadata_def to_dict_def chunk_def empty_metadata_def
  get_or_def search_documents_def

lemma successful_results_Cons:
  "successful_results vs ((q, k) # calls) = search_documents vs q k @ successful_results vs calls"
  by (simp add: successful_results_def search_documents_def)

lemma successful_results_grant:
  "successful_results vs (map (\<lambda>g. (search_terms g, 4)) gts)
     = concat (map (\<lambda>g. search_documents vs (search_terms g) 4) gts)"
  by (induction gts) (simp_all add: successful_results_Cons, simp add: successful_results_def)

lemma retrieve_results:
  "fst (retrieve vs q) =
     Inr (if 2 \<le> length (extract_grant_types_from_query q)
          then keep_first source_of {} (map to_dict (successful_results vs (snd (retrieve vs q))))
          else map to_dict (successful_results vs (snd (retrieve vs q))),
          extract_grant_types_from_query q)"
  by (simp add: retrieve_eq successful_results_Cons successful_results_grant search_results_def)
     (simp add: successful_results_def)

section \<open>Search strategy\<close>

text \<open>
  Claim C3. With the categories detected in the query: if there are fewer than two, the
  retrieval makes one search, for the raw query with k = 8, and returns its results
  unchanged; if there are two or more, it makes the raw-query search with k = 6 and then
  one search with k = 4 per detected category, in order, each for the expanded query of
  that category. The merged output of the searches has every source of any result
  exactly once: it keeps, in order, the first document of each source; it starts with
  the documents kept from the raw-query search alone, so a source found by the raw
  query and by a category search stays at the place the raw-query search gives it.
  For a non-empty relevant query these are the searches and documents of \<open>execute\<close>.
\<close>

theorem retriever_search_strategy:
  fixes st :: "'x state"
  assumes gts: "gts = extract_grant_types_from_query q"
  shows
  "(length gts < 2 \<longrightarrow>
      retrieve vs q = (Inr (map to_dict (search_documents vs q 8), gts), [(q, 8)])) \<and>
   (2 \<le> length gts \<longrightarrow>
      retrieve vs q = (Inr (keep_first source_of {} (search_results vs q gts), gts),
                       (q, 6) # map (\<lambda>g. (search_terms g, 4)) gts)) \<and>
   (\<forall>g \<in> set gts.
      search_terms g = u ''AMIF-2025 '' @ py_upper g @ u '' grant eligibility criteria budget'') \<and>
   distinct (map source_of (keep_first source_of {} (search_results vs q gts))) \<and>
   source_of ` set (keep_first source_of {} (search_results vs q gts))
     = source_of ` set (search_results vs q gts) \<and>
   prefix (keep_first source_of {} (map to_dict (search_documents vs q 6)))
     (keep_first source_of {} (search_results vs q gts)) \<and>
   (\<forall>d \<in> set (keep_first source_of {} (search_results vs q gts)).
      find (\<lambda>y. source_of y = source_of d) (search_results vs q gts) = Some d) \<and>
   (get_or (query st) [] = q \<and> q \<noteq> [] \<and> is_query_relevant q (detect_language q) \<longrightarrow>
      snd (retriever_execute vs st) = snd (retrieve vs q) \<and>
      fst (retrieve vs q) = Inr (get_or (retrieved_documents (fst (retriever_execute vs st))) [], gts))"
proof (intro conjI)
  show "length gts < 2 \<longrightarrow>
      retrieve vs q = (Inr (map to_dict (search_documents vs q 8), gts), [(q, 8)])"
    by (simp add: retrieve_eq gts)
  show "2 \<le> length gts \<longrightarrow>
      retrieve vs q = (Inr (keep_first source_of {} (search_results vs q gts), gts),
                       (q, 6) # map (\<lambda>g. (search_terms g, 4)) gts)"
    by (simp add: retrieve_eq gts)
  show "\<forall>g \<in> set gts.
      search_terms g = u ''AMIF-2025 '' @ py_upper g @ u '' grant eligibility criteria budget''"
    using grant_types_known [of q] search_terms_known unfolding gts by blast
  show "distinct (map source_of (keep_first source_of {} (search_results vs q gts)))"
    by (rule keep_first_distinct)
  show "source_of ` set (keep_first source_of {} (search_results vs q gts))
     = source_of ` set (search_results vs q gts)"
    by (simp add: keep_first_keys)
  show "prefix (keep_first source_of {} (map to_dict (search_documents vs q 6)))
     (keep_first source_of {} (search_results vs q gts))"
    by (simp add: search_results_def keep_first_append)
  show "\<forall>d \<in> set (keep_first source_of {} (search_results vs q gts)).
      find (\<lambda>y. source_of y = source_of d) (search_results vs q gts) = Some d"
    by (blast intro: keep_first_is_first)
  show "get_or (query st) [] = q \<and> q \<noteq> [] \<and> is_query_relevant q (detect_language q) \<longrightarrow>
      snd (retriever_execute vs st) = snd (retrieve vs q) \<and>
      fst (retrieve vs q) = Inr (get_or (retrieved_documents (fst (retriever_execute vs st))) [], gts)"
  proof (intro impI)
    assume a: "get_or (query st) [] = q \<and> q \<noteq> [] \<and> is_query_relevant q (detect_language q)"
    have "\<exists>docs. fst (retrieve vs q) = Inr (docs, gts)"
      by (simp add: retrieve_eq gts)
    then obtain docs where d: "fst (retrieve vs q) = Inr (docs, gts)" ..
    from a d have "retriever_execute vs st =
       (st\<lparr> detected_language := Some (detect_language q),
          retrieved_documents := Some docs, retrieval_performed := Some True,
          grant_types_detected := Some gts \<rparr>, snd (retrieve vs q))"
      by (intro retriever_execute_eq) simp_all
    with d show "snd (retriever_execute vs st) = snd (retrieve vs q) \<and>
      fst (retrieve vs q) = Inr (get_or (retrieved_documents (fst (retriever_execute vs st))) [], gts)"
      by (simp add: get_or_def)
  qed
qed

text \<open>A comparison question on the example index, and a question with no category.\<close>

theorem retriever_search_strategy_witness:
  "extract_grant_types_from_query (u ''women and children grant'') = [u ''women'', u ''children''] \<and>
   retrieve example_index (u ''women and children grant'') =
     (Inr ([to_dict (chunk (u ''data/raw/a.pdf'') (u ''1'') (u ''text'')),
            to_dict (chunk (u ''data/raw/b.pdf'') (u ''1'') (u ''text'')),
            to_dict (chunk (u ''data/raw/c.pdf'') (u ''1'') (u ''text''))],
           [u ''women'', u ''children'']),
      [(u ''women and children grant'', 6),
       (u ''AMIF-2025 WOMEN grant eligibility criteria budget'', 4),
       (u ''AMIF-2025 CHILDREN grant eligibility criteria budget'', 4)]) \<and>
   snd (retriever_execute example_index (new_state (u ''women and children grant''))) =
      [(u ''women and children grant'', 6),
       (u ''AMIF-2025 WOMEN grant eligibility criteria budget'', 4),
       (u ''AMIF-2025 CHILDREN grant eligibility criteria budget'', 4)] \<and>
   get_or (retrieved_documents
       (fst (retriever_execute example_index (new_state (u ''women and children grant''))))) [] =
      [to_dict (chunk (u ''data/raw/a.pdf'') (u ''1'') (u ''text'')),
       to_dict (chunk (u ''data/raw/b.pdf'') (u ''1'') (u ''text'')),
       to_dict (chunk (u ''data/raw/c.pdf'') (u ''1'') (u ''text''))] \<and>
   extract_grant_types_from_query (u ''what is the budget'') = [] \<and>
   snd (retrieve example_index (u ''what is the budget'')) = [(u ''what is the budget'', 8)]"
proof -
  have g0: "extract_grant_types_from_query (u ''what is the budget'') = []"
    by (simp add: extract_grant_types_from_query_def grant_mappings_def str_defs)
  have r: "search_results example_index (u ''women and children grant'') [u ''women'', u ''children'']
      = map to_dict [chunk (u ''data/raw/a.pdf'') (u ''1'') (u ''text''),
                     chunk (u ''data/raw/b.pdf'') (u ''1'') (u ''text''),
                     chunk (u ''data/raw/b.pdf'') (u ''2'') (u ''text''),
                     chunk (u ''data/raw/c.pdf'') (u ''1'') (u ''text''),
                     chunk (u ''data/raw/a.pdf'') (u ''3'') (u ''text'')]"
    apply (simp only: search_results_def list.map concat.simps comparison_search_terms)
    apply (simp add: search_documents_def example_index_def u_def)
    done
  have k: "keep_first source_of {}
      (search_results example_index (u ''women and children grant'') [u ''women'', u ''children''])
      = [to_dict (chunk (u ''data/raw/a.pdf'') (u ''1'') (u ''text'')),
         to_dict (chunk (u ''data/raw/b.pdf'') (u ''1'') (u ''text'')),
         to_dict (chunk (u ''data/raw/c.pdf'') (u ''1'') (u ''text''))]"
    unfolding r by (simp add: retriever_defs u_def)
  have q: "get_or (query (new_state (u ''women and children grant''))) []
      = u ''women and children grant''"
    by (simp add: new_state_def get_or_def)
  have ne: "u ''women and children grant'' \<noteq> []"
    by (simp add: u_def)
  have rel: "is_query_relevant (u ''women and children grant'')
      (detect_language (u ''women and children grant''))"
    by (simp add: comparison_query_language comparison_query_relevant)
  note multi = retriever_search_strategy
    [of "[u ''women'', u ''children'']" "u ''women and children grant''" example_index
        "new_state (u ''women and children grant'')", OF comparison_query_types [symmetric]]
  note single = retriever_search_strategy
    [of "[]" "u ''what is the budget''" example_index "new_state (u ''what is the budget'')",
     OF g0 [symmetric]]
  from multi have m: "retrieve example_index (u ''women and children grant'') =
     (Inr (keep_first source_of {}
        (search_results example_index (u ''women and children grant'') [u ''women'', u ''children'']),
           [u ''women'', u ''children'']),
      (u ''women and children grant'', 6) #
        map (\<lambda>g. (search_terms g, 4)) [u ''women'', u ''children''])"
    by simp
  from multi q ne rel have x:
    "snd (retriever_execute example_index (new_state (u ''women and children grant'')))
       = snd (retrieve example_index (u ''women and children grant'')) \<and>
     fst (retrieve example_index (u ''women and children grant''))
       = Inr (get_or (retrieved_documents
           (fst (retriever_execute example_index (new_state (u ''women and children grant''))))) [],
              [u ''women'', u ''children''])"
    by blast
  from single have "snd (retrieve example_index (u ''what is the budget''))
      = [(u ''what is the budget'', 8)]"
    by simp
  with m x show ?thesis
    by (simp add: comparison_query_types g0 k comparison_search_terms)
qed

section \<open>Failure of the search backend\<close>

text \<open>
  Claim C6, as amended. For every backend and state the Retriever sets
  \<open>retrieval_performed\<close> to true and returns normally: no exception of the backend
  reaches the caller, and the body of the \<open>try\<close> block never raises. If every search
  call made during the retrieval raises, and so whenever the single search of the
  single-search strategy raises, \<open>retrieved_documents\<close> is the empty list. In general
  \<open>retrieved_documents\<close> holds the results of the searches that did not raise, in the
  order of the searches, of which a multi-search keeps the first document of each
  source: a search that raises contributes nothing, the results of the others are kept.
\<close>

theorem retriever_failure_containment:
  fixes st :: "'x state"
  shows
  "retrieval_performed (fst (retriever_execute vs st)) = Some True \<and>
   \<not> isl (fst (retrieve vs q)) \<and>
   ((\<forall>c \<in> set (snd (retriever_execute vs st)). isl (vs (fst c) (snd c))) \<longrightarrow>
      retrieved_documents (fst (retriever_execute vs st)) = Some []) \<and>
   (get_or (query st) [] \<noteq> [] \<and>
    is_query_relevant (get_or (query st) []) (detect_language (get_or (query st) [])) \<and>
    length (extract_grant_types_from_query (get_or (query st) [])) < 2 \<and>
    isl (vs (get_or (query st) []) 8) \<longrightarrow>
      snd (retriever_execute vs st) = [(get_or (query st) [], 8)] \<and>
      retrieved_documents (fst (retriever_execute vs st)) = Some []) \<and>
   retrieved_documents (fst (retriever_execute vs st)) =
     Some (if 2 \<le> length (extract_grant_types_from_query (get_or (query st) []))
           then keep_first source_of {}
                  (map to_dict (successful_results vs (snd (retriever_execute vs st))))
           else map to_dict (successful_results vs (snd (retriever_execute vs st)))) \<and>
   successful_results vs calls =
     concat (map (\<lambda>(q', k). case vs q' k of Inl e \<Rightarrow> [] | Inr results \<Rightarrow> results) calls)"
proof -
  have main: "retrieval_performed (fst (retriever_execute vs st)) = Some True \<and>
   \<not> isl (fst (retrieve vs q)) \<and>
   ((\<forall>c \<in> set (snd (retriever_execute vs st)). isl (vs (fst c) (snd c))) \<longrightarrow>
      retrieved_documents (fst (retriever_execute vs st)) = Some []) \<and>
   retrieved_documents (fst (retriever_execute vs st)) =
     Some (if 2 \<le> length (extract_grant_types_from_query (get_or (query st) []))
           then keep_first source_of {}
                  (map to_dict (successful_results vs (snd (retriever_execute vs st))))
           else map to_dict (successful_results vs (snd (retriever_execute vs st)))) \<and>
   successful_results vs calls =
     concat (map (\<lambda>(q', k). case vs q' k of Inl e \<Rightarrow> [] | Inr results \<Rightarrow> results) calls)"
  proof (intro conjI impI)
    show "retrieval_performed (fst (retriever_execute vs st)) = Some True"
      using retriever_execute_cases [of vs st] by blast
    show "\<not> isl (fst (retrieve vs q))"
      by (rule retrieve_never_raises)
    show "successful_results vs calls =
       concat (map (\<lambda>(q', k). case vs q' k of Inl e \<Rightarrow> [] | Inr results \<Rightarrow> results) calls)"
      by (rule successful_results_def)
    define q' where "q' = get_or (query st) []"
    show kept: "retrieved_documents (fst (retriever_execute vs st)) =
       Some (if 2 \<le> length (extract_grant_types_from_query (get_or (query st) []))
             then keep_first source_of {}
                    (map to_dict (successful_results vs (snd (retriever_execute vs st))))
             else map to_dict (successful_results vs (snd (retriever_execute vs st))))"
    proof (cases "q' = [] \<or> \<not> is_query_relevant q' (detect_language q')")
      case True
      then have "retrieved_documents (fst (retriever_execute vs st)) = Some []"
        and "snd (retriever_execute vs st) = []"
        using retriever_execute_cases [of vs st] unfolding q'_def by simp_all
      then show ?thesis by (simp add: successful_results_def)
    next
      case False
      then have calls: "snd (retriever_execute vs st) = snd (retrieve vs q')"
        using retriever_execute_cases [of vs st] unfolding q'_def by simp
      from False retrieve_results [of vs q']
      have "retriever_execute vs st =
         (st\<lparr> detected_language := Some (detect_language q'),
            retrieved_documents := Some
              (if 2 \<le> length (extract_grant_types_from_query q')
               then keep_first source_of {} (map to_dict (successful_results vs (snd (retrieve vs q'))))
               else map to_dict (successful_results vs (snd (retrieve vs q')))),
            retrieval_performed := Some True,
            grant_types_detected := Some (extract_grant_types_from_query q') \<rparr>,
          snd (retrieve vs q'))"
        unfolding q'_def by (intro retriever_execute_eq) simp_all
      then show ?thesis
        unfolding q'_def by simp
    qed
    assume all: "\<forall>c \<in> set (snd (retriever_execute vs st)). isl (vs (fst c) (snd c))"
    then have "successful_results vs (snd (retriever_execute vs st)) = []"
      by (auto simp: successful_results_def isl_def)
    with kept show "retrieved_documents (fst (retriever_execute vs st)) = Some []"
      by simp
  qed
  have single: "get_or (query st) [] \<noteq> [] \<and>
    is_query_relevant (get_or (query st) []) (detect_language (get_or (query st) [])) \<and>
    length (extract_grant_types_from_query (get_or (query st) [])) < 2 \<and>
    isl (vs (get_or (query st) []) 8) \<longrightarrow>
      snd (retriever_execute vs st) = [(get_or (query st) [], 8)] \<and>
      retrieved_documents (fst (retriever_execute vs st)) = Some []"
  proof (intro impI)
    assume a: "get_or (query st) [] \<noteq> [] \<and>
      is_query_relevant (get_or (query st) []) (detect_language (get_or (query st) [])) \<and>
      length (extract_grant_types_from_query (get_or (query st) [])) < 2 \<and>
      isl (vs (get_or (query st) []) 8)"
    then have c: "snd (retriever_execute vs st) = [(get_or (query st) [], 8)]"
      using retriever_execute_cases [of vs st] by (simp add: retrieve_eq)
    with a have "\<forall>c \<in> set (snd (retriever_execute vs st)). isl (vs (fst c) (snd c))"
      by simp
    with main have "retrieved_documents (fst (retriever_execute vs st)) = Some []"
      by blast
    with c show "snd (retriever_execute vs st) = [(get_or (query st) [], 8)] \<and>
      retrieved_documents (fst (retriever_execute vs st)) = Some []"
      by simp
  qed
  from main single show ?thesis by blast
qed

text \<open>
  An index whose every call raises, under a comparison question and under a question with
  no category; and an index on which only the search for the women category raises,
  where the document the children search adds is kept.
\<close>

theorem retriever_failure_containment_witness:
  "isl (index_down (u ''women and children grant'') 6) \<and>
   isl (index_down (u ''AMIF-2025 WOMEN grant eligibility criteria budget'') 4) \<and>
   isl (index_down (u ''AMIF-2025 CHILDREN grant eligibility criteria budget'') 4) \<and>
   snd (retriever_execute index_down (new_state (u ''women and children grant'')))
     = [(u ''women and children grant'', 6),
        (u ''AMIF-2025 WOMEN grant eligibility criteria budget'', 4),
        (u ''AMIF-2025 CHILDREN grant eligibility criteria budget'', 4)] \<and>
   retrieved_documents (fst (retriever_execute index_down (new_state (u ''women and children grant''))))
     = Some [] \<and>
   retrieval_performed (fst (retriever_execute index_down (new_state (u ''women and children grant''))))
     = Some True \<and>
   women_search_timeout (u ''women and children grant'') 6
     = Inr [chunk (u ''data/raw/a.pdf'') (u ''1'') (u ''text'')] \<and>
   women_search_timeout (u ''AMIF-2025 WOMEN grant eligibility criteria budget'') 4
     = Inl (Exn (u ''timeout'')) \<and>
   women_search_timeout (u ''AMIF-2025 CHILDREN grant eligibility criteria budget'') 4
     = Inr [chunk (u ''data/raw/a.pdf'') (u ''2'') (u ''text''),
            chunk (u ''data/raw/c.pdf'') (u ''1'') (u ''text'')] \<and>
   retrieved_documents
       (fst (retriever_execute women_search_timeout (new_state (u ''women and children grant''))))
     = Some [to_dict (chunk (u ''data/raw/a.pdf'') (u ''1'') (u ''text'')),
             to_dict (chunk (u ''data/raw/c.pdf'') (u ''1'') (u ''text''))] \<and>
   extract_grant_types_from_query (u ''what is the budget'') = [] \<and>
   isl (index_down (u ''what is the budget'') 8) \<and>
   snd (retriever_execute index_down (new_state (u ''what is the budget'')))
     = [(u ''what is the budget'', 8)] \<and>
   retrieved_documents (fst (retriever_execute index_down (new_state (u ''what is the budget''))))
     = Some []"
proof -
  have pq: "get_or (query (new_state (u ''what is the budget''))) [] = u ''what is the budget''"
    by (simp add: new_state_def get_or_def)
  have pn: "u ''what is the budget'' \<noteq> []"
    by (simp add: u_def)
  have pl: "detect_language (u ''what is the budget'') = u ''english''"
    by (simp add: detect_language_def score_defs str_defs)
  have pr: "is_query_relevant (u ''what is the budget'') (u ''english'')"
    by (simp add: is_query_relevant_def irrelevant_patterns_en_def grant_keywords_tr_def
        grant_keywords_en_def str_defs)
  have pt: "extract_grant_types_from_query (u ''what is the budget'') = []"
    by (simp add: extract_grant_types_from_query_def grant_mappings_def str_defs)
  have pi: "isl (index_down (u ''what is the budget'') 8)"
    by (simp add: index_down_def)
  from retriever_failure_containment
    [of index_down "new_state (u ''what is the budget'')" "u ''what is the budget''"]
  have "get_or (query (new_state (u ''what is the budget''))) [] \<noteq> [] \<and>
    is_query_relevant (get_or (query (new_state (u ''what is the budget''))) [])
      (detect_language (get_or (query (new_state (u ''what is the budget''))) [])) \<and>
    length (extract_grant_types_from_query
      (get_or (query (new_state (u ''what is the budget''))) [])) < 2 \<and>
    isl (index_down (get_or (query (new_state (u ''what is the budget''))) []) 8) \<longrightarrow>
      snd (retriever_execute index_down (new_state (u ''what is the budget'')))
        = [(get_or (query (new_state (u ''what is the budget''))) [], 8)] \<and>
      retrieved_documents (fst (retriever_execute index_down (new_state (u ''what is the budget''))))
        = Some []"
    by blast
  with pn pl pr pt pi have single:
    "snd (retriever_execute index_down (new_state (u ''what is the budget'')))
       = [(u ''what is the budget'', 8)] \<and>
     retrieved_documents (fst (retriever_execute index_down (new_state (u ''what is the budget''))))
       = Some []"
    by (simp add: pq)
  have h: "\<forall>c \<in> set (snd (retriever_execute index_down (new_state (u ''women and children grant'')))).
      isl (index_down (fst c) (snd c))"
    by (simp add: index_down_def)
  have q: "get_or (query (new_state (u ''women and children grant''))) []
      = u ''women and children grant''"
    by (simp add: new_state_def get_or_def)
  have ne: "u ''women and children grant'' \<noteq> []"
    by (simp add: u_def)
  have calls: "snd (retriever_execute vs (new_state (u ''women and children grant'')))
     = [(u ''women and children grant'', 6),
        (u ''AMIF-2025 WOMEN grant eligibility criteria budget'', 4),
        (u ''AMIF-2025 CHILDREN grant eligibility criteria budget'', 4)]" for vs
  proof -
    have "snd (retriever_execute vs (new_state (u ''women and children grant'')))
       = snd (retrieve vs (u ''women and children grant''))"
      using retriever_execute_cases [of vs "new_state (u ''women and children grant'')"]
        comparison_query_relevant ne
      by (simp add: q comparison_query_language)
    then show ?thesis
      by (simp add: retrieve_eq comparison_query_types comparison_search_terms)
  qed
  have w: "women_search_timeout (u ''women and children grant'') 6
     = Inr [chunk (u ''data/raw/a.pdf'') (u ''1'') (u ''text'')]"
    "women_search_timeout (u ''AMIF-2025 WOMEN grant eligibility criteria budget'') 4
     = Inl (Exn (u ''timeout''))"
    "women_search_timeout (u ''AMIF-2025 CHILDREN grant eligibility criteria budget'') 4
     = Inr [chunk (u ''data/raw/a.pdf'') (u ''2'') (u ''text''),
            chunk (u ''data/raw/c.pdf'') (u ''1'') (u ''text'')]"
    by (simp_all add: women_search_timeout_def u_def)
  have sr: "successful_results women_search_timeout
      [(u ''women and children grant'', 6),
        (u ''AMIF-2025 WOMEN grant eligibility criteria budget'', 4),
        (u ''AMIF-2025 CHILDREN grant eligibility criteria budget'', 4)]
      = [chunk (u ''data/raw/a.pdf'') (u ''1'') (u ''text''),
         chunk (u ''data/raw/a.pdf'') (u ''2'') (u ''text''),
         chunk (u ''data/raw/c.pdf'') (u ''1'') (u ''text'')]"
    by (simp add: successful_results_def w)
  have k: "keep_first source_of {} (map to_dict
        [chunk (u ''data/raw/a.pdf'') (u ''1'') (u ''text''),
         chunk (u ''data/raw/a.pdf'') (u ''2'') (u ''text''),
         chunk (u ''data/raw/c.pdf'') (u ''1'') (u ''text'')])
      = [to_dict (chunk (u ''data/raw/a.pdf'') (u ''1'') (u ''text'')),
         to_dict (chunk (u ''data/raw/c.pdf'') (u ''1'') (u ''text''))]"
    by (simp add: retriever_defs u_def)
  from retriever_failure_containment
    [of index_down "new_state (u ''women and children grant'')" "u ''women and children grant''"] h
  have d: "retrieved_documents (fst (retriever_execute index_down (new_state (u ''women and children grant''))))
     = Some [] \<and>
   retrieval_performed (fst (retriever_execute index_down (new_state (u ''women and children grant''))))
     = Some True"
    by blast
  from retriever_failure_containment
    [of women_search_timeout "new_state (u ''women and children grant'')"
        "u ''women and children grant''"]
  have "retrieved_documents
       (fst (retriever_execute women_search_timeout (new_state (u ''women and children grant''))))
     = Some (if 2 \<le> length (extract_grant_types_from_query
                  (get_or (query (new_state (u ''women and children grant''))) []))
           then keep_first source_of {}
                  (map to_dict (successful_results women_search_timeout
                     (snd (retriever_execute women_search_timeout
                        (new_state (u ''women and children grant''))))))
           else map to_dict (successful_results women_search_timeout
                     (snd (retriever_execute women_search_timeout
                        (new_state (u ''women and children grant''))))))"
    by blast
  then have "retrieved_documents
       (fst (retriever_execute women_search_timeout (new_state (u ''women and children grant''))))
     = Some (keep_first source_of {}
               (map to_dict (successful_results women_search_timeout
                  [(u ''women and children grant'', 6),
                   (u ''AMIF-2025 WOMEN grant eligibility criteria budget'', 4),
                   (u ''AMIF-2025 CHILDREN grant eligibility criteria budget'', 4)])))"
    by (simp add: q comparison_query_types calls)
  then have p: "retrieved_documents
       (fst (retriever_execute women_search_timeout (new_state (u ''women and children grant''))))
     = Some [to_dict (chunk (u ''data/raw/a.pdf'') (u ''1'') (u ''text'')),
             to_dict (chunk (u ''data/raw/c.pdf'') (u ''1'') (u ''text''))]"
    by (simp only: sr k)
  from d p w calls [of index_down] single pt pi show ?thesis
    by (simp add: index_down_def)
qed

text \<open>
  Claim C6 as stated fails: in a multi-search the raw-query search raises, is answered
  with the empty list by \<open>search_documents\<close>, and the category searches still add
  their results, so \<open>retrieved_documents\<close> is not empty although the backend raised.
\<close>

theorem retriever_failure_containment_counterexample:
  "raw_query_timeout (u ''women and children grant'') 6 = Inl (Exn (u ''timeout'')) \<and>
   (u ''women and children grant'', 6)
     \<in> set (snd (retriever_execute raw_query_timeout (new_state (u ''women and children grant'')))) \<and>
   retrieval_performed
     (fst (retriever_execute raw_query_timeout (new_state (u ''women and children grant''))))
     = Some True \<and>
   retrieved_documents
     (fst (retriever_execute raw_query_timeout (new_state (u ''women and children grant''))))
     = Some [to_dict (chunk (u ''data/raw/a.pdf'') (u ''1'') (u ''text''))] \<and>
   retrieved_documents
     (fst (retriever_execute raw_query_timeout (new_state (u ''women and children grant''))))
     \<noteq> Some []"
proof -
  have q: "get_or (query (new_state (u ''women and children grant''))) []
      = u ''women and children grant''"
    by (simp add: new_state_def get_or_def)
  have ne: "u ''women and children grant'' \<noteq> []"
    by (simp add: u_def)
  have m: "search_documents raw_query_timeout (u ''women and children grant'') 6 = []"
    by (simp add: search_documents_def raw_query_timeout_def)
  have w: "search_documents raw_query_timeout
        (u ''AMIF-2025 WOMEN grant eligibility criteria budget'') 4
      = [chunk (u ''data/raw/a.pdf'') (u ''1'') (u ''text'')]"
    "search_documents raw_query_timeout
        (u ''AMIF-2025 CHILDREN grant eligibility criteria budget'') 4
      = [chunk (u ''data/raw/a.pdf'') (u ''1'') (u ''text'')]"
    by (simp_all add: search_documents_def raw_query_timeout_def u_def)
  have r: "search_results raw_query_timeout (u ''women and children grant'') [u ''women'', u ''children'']
      = [to_dict (chunk (u ''data/raw/a.pdf'') (u ''1'') (u ''text'')),
         to_dict (chunk (u ''data/raw/a.pdf'') (u ''1'') (u ''text''))]"
    by (simp only: search_results_def list.map concat.simps comparison_search_terms m w
        append_Nil append_Nil2 append_Cons)
  have k: "keep_first source_of {}
      (search_results raw_query_timeout (u ''women and children grant'') [u ''women'', u ''children''])
      = [to_dict (chunk (u ''data/raw/a.pdf'') (u ''1'') (u ''text''))]"
    unfolding r by simp
  have f: "fst (retrieve raw_query_timeout (u ''women and children grant''))
      = Inr ([to_dict (chunk (u ''data/raw/a.pdf'') (u ''1'') (u ''text''))],
             [u ''women'', u ''children''])"
    by (simp add: retrieve_eq comparison_query_types k)
  have s: "snd (retrieve raw_query_timeout (u ''women and children grant''))
      = [(u ''women and children grant'', 6),
        (u ''AMIF-2025 WOMEN grant eligibility criteria budget'', 4),
        (u ''AMIF-2025 CHILDREN grant eligibility criteria budget'', 4)]"
    by (simp add: retrieve_eq comparison_query_types comparison_search_terms)
  have rel: "is_query_relevant (u ''women and children grant'')
      (detect_language (u ''women and children grant''))"
    by (simp add: comparison_query_language comparison_query_relevant)
  note e = retriever_execute_eq [OF q ne rel f]
  have "raw_query_timeout (u ''women and children grant'') 6 = Inl (Exn (u ''timeout''))"
    by (simp add: raw_query_timeout_def)
  then show ?thesis
    by (simp add: e s)
qed

section \<open>Appending to the groups\<close>

lemma dict_append_keys:
  "map fst (dict_append k v g) = (if k \<in> fst ` set g then map fst g else map fst g @ [k])"
  by (induction g) (auto simp: rev_image_eqI)

lemma dict_append_key_set: "fst ` set (dict_append k v g) = insert k (fst ` set g)"
proof -
  have "set (map fst (dict_append k v g)) = insert k (set (map fst g))"
    by (auto simp: dict_append_keys)
  then show ?thesis by simp
qed

lemma dict_append_distinct: "distinct (map fst g) \<Longrightarrow> distinct (map fst (dict_append k v g))"
  by (simp add: dict_append_keys)

lemma dict_append_map_of:
  "map_of (dict_append k v g) =
     (map_of g)(k \<mapsto> (case map_of g k of None \<Rightarrow> [] | Some vs \<Rightarrow> vs) @ [v])"
  by (induction g) (auto simp: fun_eq_iff)

lemma dict_append_mset:
  "mset (concat (map snd (dict_append k v g))) = add_mset v (mset (concat (map snd g)))"
  by (induction g) auto

lemma fold_dict_append_keys:
  "map fst (fold (\<lambda>d. dict_append (f d) d) docs g) =
     map fst g @ keep_first (\<lambda>k. k) (fst ` set g) (map f docs)"
proof (induction docs arbitrary: g)
  case Nil
  then show ?case by simp
next
  case (Cons d docs)
  have s: "fst ` set (dict_append (f d) d g) = insert (f d) (fst ` set g)"
    by (rule dict_append_key_set)
  show ?case
    by (simp add: Cons.IH s dict_append_keys insert_absorb)
qed

lemma fold_dict_append_distinct:
  "distinct (map fst g) \<Longrightarrow> distinct (map fst (fold (\<lambda>d. dict_append (f d) d) docs g))"
  by (induction docs arbitrary: g) (simp_all add: dict_append_distinct)

lemma fold_dict_append_mset:
  "mset (concat (map snd (fold (\<lambda>d. dict_append (f d) d) docs g))) =
     mset docs + mset (concat (map snd g))"
  by (induction docs arbitrary: g) (simp_all add: dict_append_mset)

lemma fold_dict_append_map_of:
  "map_of (fold (\<lambda>d. dict_append (f d) d) docs g) k =
     (if k \<in> f ` set docs \<or> k \<in> fst ` set g
      then Some ((case map_of g k of None \<Rightarrow> [] | Some vs \<Rightarrow> vs) @ filter (\<lambda>d. f d = k) docs)
      else None)"
proof (induction docs arbitrary: g)
  case Nil
  then show ?case
    by (auto simp: map_of_eq_None_iff split: option.splits)
next
  case (Cons d docs)
  have s: "fst ` set (dict_append (f d) d g) = insert (f d) (fst ` set g)"
    by (rule dict_append_key_set)
  show ?case
    by (auto simp: Cons.IH s dict_append_map_of)
qed


lemma extract_grant_groups_entry:
  assumes "(k, members) \<in> set (extract_grant_groups docs)"
  shows "members = filter (\<lambda>d. group_key d = k) docs \<and> k \<in> group_key ` set docs"
proof -
  have "distinct (map fst (extract_grant_groups docs))"
    unfolding extract_grant_groups_def by (rule fold_dict_append_distinct) simp
  with assms have "map_of (extract_grant_groups docs) k = Some members"
    by simp
  then show ?thesis
    unfolding extract_grant_groups_def
    by (simp add: fold_dict_append_map_of split: if_splits)
qed

lemma extract_grant_groups_member:
  assumes "d \<in> set docs"
  shows "(group_key d, filter (\<lambda>x. group_key x = group_key d) docs) \<in> set (extract_grant_groups docs)"
proof -
  from assms have "map_of (extract_grant_groups docs) (group_key d)
      = Some (filter (\<lambda>x. group_key x = group_key d) docs)"
    unfolding extract_grant_groups_def by (simp add: fold_dict_append_map_of)
  then show ?thesis by (rule map_of_SomeD)
qed

section \<open>Grouping\<close>

text \<open>
  Claim C1. For every list of documents, \<open>_extract_grant_groups\<close> puts each document
  into exactly one group: the group keys are pairwise distinct and are the keys of the
  documents in first-seen order (a grant identifier or \<open>UNKNOWN\<close>); the members of a
  group are the documents with that key, in input order, and no group is empty; a
  document of the input is a member of the group of its key and of no other; the members
  of all groups together are the documents of the input, each as often as in the input.
\<close>

theorem grouping_totality:
  "distinct (map fst (extract_grant_groups docs)) \<and>
   map fst (extract_grant_groups docs) = keep_first (\<lambda>k. k) {} (map group_key docs) \<and>
   (\<forall>(k, members) \<in> set (extract_grant_groups docs).
      members = filter (\<lambda>d. group_key d = k) docs \<and> members \<noteq> []) \<and>
   (\<forall>d \<in> set docs. \<exists>!entry. entry \<in> set (extract_grant_groups docs) \<and> d \<in> set (snd entry)) \<and>
   (\<forall>d \<in> set docs. \<forall>entry \<in> set (extract_grant_groups docs).
      d \<in> set (snd entry) \<longleftrightarrow> fst entry = group_key d) \<and>
   mset (concat (map snd (extract_grant_groups docs))) = mset docs \<and>
   (\<Union>entry \<in> set (extract_grant_groups docs). set (snd entry)) = set docs"
proof (intro conjI)
  show dist: "distinct (map fst (extract_grant_groups docs))"
    unfolding extract_grant_groups_def by (rule fold_dict_append_distinct) simp
  show "map fst (extract_grant_groups docs) = keep_first (\<lambda>k. k) {} (map group_key docs)"
    unfolding extract_grant_groups_def by (simp add: fold_dict_append_keys)
  show "\<forall>(k, members) \<in> set (extract_grant_groups docs).
      members = filter (\<lambda>d. group_key d = k) docs \<and> members \<noteq> []"
  proof (clarify, intro conjI)
    fix k members
    assume e: "(k, members) \<in> set (extract_grant_groups docs)"
    from extract_grant_groups_entry [OF e]
    show "members = filter (\<lambda>d. group_key d = k) docs" by blast
    from extract_grant_groups_entry [OF e]
    show "members \<noteq> []" by (auto simp: filter_empty_conv)
  qed
  show mem: "\<forall>d \<in> set docs. \<forall>entry \<in> set (extract_grant_groups docs).
      d \<in> set (snd entry) \<longleftrightarrow> fst entry = group_key d"
  proof (intro ballI)
    fix d entry
    assume d: "d \<in> set docs" and e: "entry \<in> set (extract_grant_groups docs)"
    obtain k members where p: "entry = (k, members)" by (cases entry)
    from extract_grant_groups_entry [of k members docs] e p
    have "members = filter (\<lambda>d. group_key d = k) docs" by blast
    with d p show "d \<in> set (snd entry) \<longleftrightarrow> fst entry = group_key d" by auto
  qed
  show "\<forall>d \<in> set docs. \<exists>!entry. entry \<in> set (extract_grant_groups docs) \<and> d \<in> set (snd entry)"
  proof (intro ballI ex1I)
    fix d assume d: "d \<in> set docs"
    let ?e = "(group_key d, filter (\<lambda>x. group_key x = group_key d) docs)"
    from extract_grant_groups_member [OF d] d
    show "?e \<in> set (extract_grant_groups docs) \<and> d \<in> set (snd ?e)" by simp
    fix entry
    assume a: "entry \<in> set (extract_grant_groups docs) \<and> d \<in> set (snd entry)"
    obtain k members where p: "entry = (k, members)" by (cases entry)
    from a mem d have "fst entry = group_key d" by blast
    moreover from extract_grant_groups_entry [of k members docs] a p
    have "members = filter (\<lambda>d. group_key d = k) docs" by blast
    ultimately show "entry = ?e" using p by simp
  qed
  show "mset (concat (map snd (extract_grant_groups docs))) = mset docs"
    unfolding extract_grant_groups_def by (simp add: fold_dict_append_mset)
  then have "set (concat (map snd (extract_grant_groups docs))) = set docs"
    by (rule mset_eq_setD)
  then show "(\<Union>entry \<in> set (extract_grant_groups docs). set (snd entry)) = set docs"
    by simp
qed

text \<open>The five example documents fall into four groups.\<close>

lemmas grouping_defs = group_key_def filename_key_def content_key_def best_step_def
  grant_keywords_def grant_patterns_def match_full_pattern_def match_short_pattern_def
  match_digits4_def is_digit_def ignorecase_eq_def doc_metadata_def grant_doc_def
  empty_metadata_def get_or_def

lemma example_group_keys:
  "group_key (grant_doc (Some (u ''AMIF-2025-TF2-AG-INTE-01-WOMEN'')) (Some (u ''a.pdf'')) (u ''one''))
     = u ''AMIF-2025-TF2-AG-INTE-01-WOMEN''"
  "group_key (grant_doc (Some (u ''unknown_grant''))
        (Some (u ''amif-2025-tf2-ag-inte-05-children_faq.pdf'')) (u ''two''))
     = u ''AMIF-2025-TF2-AG-INTE-05-CHILDREN''"
  "group_key (grant_doc None None (u ''three'')) = u ''UNKNOWN''"
  "group_key (grant_doc (Some (u ''AMIF-2025-TF2-AG-INTE-01-WOMEN'')) (Some (u ''b.pdf'')) (u ''four''))
     = u ''AMIF-2025-TF2-AG-INTE-01-WOMEN''"
  "group_key (grant_doc None (Some (u ''notes.pdf'')) (u ''medical and health services''))
     = u ''AMIF-2025-TF2-AG-INTE-02-HEALTH''"
  by (simp_all add: grouping_defs str_defs)

lemma example_keys_differ:
  "u ''AMIF-2025-TF2-AG-INTE-05-CHILDREN'' \<noteq> u ''AMIF-2025-TF2-AG-INTE-01-WOMEN''"
  "u ''UNKNOWN'' \<noteq> u ''AMIF-2025-TF2-AG-INTE-01-WOMEN''"
  "u ''UNKNOWN'' \<noteq> u ''AMIF-2025-TF2-AG-INTE-05-CHILDREN''"
  "u ''AMIF-2025-TF2-AG-INTE-02-HEALTH'' \<noteq> u ''AMIF-2025-TF2-AG-INTE-01-WOMEN''"
  "u ''AMIF-2025-TF2-AG-INTE-02-HEALTH'' \<noteq> u ''AMIF-2025-TF2-AG-INTE-05-CHILDREN''"
  "u ''AMIF-2025-TF2-AG-INTE-02-HEALTH'' \<noteq> u ''UNKNOWN''"
  by (simp_all add: u_def)

theorem grouping_totality_witness:
  "extract_grant_groups example_grant_documents =
     [(u ''AMIF-2025-TF2-AG-INTE-01-WOMEN'',
       [grant_doc (Some (u ''AMIF-2025-TF2-AG-INTE-01-WOMEN'')) (Some (u ''a.pdf'')) (u ''one''),
        grant_doc (Some (u ''AMIF-2025-TF2-AG-INTE-01-WOMEN'')) (Some (u ''b.pdf'')) (u ''four'')]),
      (u ''AMIF-2025-TF2-AG-INTE-05-CHILDREN'',
       [grant_doc (Some (u ''unknown_grant''))
          (Some (u ''amif-2025-tf2-ag-inte-05-children_faq.pdf'')) (u ''two'')]),
      (u ''UNKNOWN'', [grant_doc None None (u ''three'')]),
      (u ''AMIF-2025-TF2-AG-INTE-02-HEALTH'',
       [grant_doc None (Some (u ''notes.pdf'')) (u ''medical and health services'')])] \<and>
   map fst (extract_grant_groups example_grant_documents) =
     [u ''AMIF-2025-TF2-AG-INTE-01-WOMEN'', u ''AMIF-2025-TF2-AG-INTE-05-CHILDREN'',
      u ''UNKNOWN'', u ''AMIF-2025-TF2-AG-INTE-02-HEALTH''] \<and>
   mset (concat (map snd (extract_grant_groups example_grant_documents)))
     = mset example_grant_documents"
proof -
  have g: "extract_grant_groups example_grant_documents =
     [(u ''AMIF-2025-TF2-AG-INTE-01-WOMEN'',
       [grant_doc (Some (u ''AMIF-2025-TF2-AG-INTE-01-WOMEN'')) (Some (u ''a.pdf'')) (u ''one''),
        grant_doc (Some (u ''AMIF-2025-TF2-AG-INTE-01-WOMEN'')) (Some (u ''b.pdf'')) (u ''four'')]),
      (u ''AMIF-2025-TF2-AG-INTE-05-CHILDREN'',
       [grant_doc (Some (u ''unknown_grant''))
          (Some (u ''amif-2025-tf2-ag-inte-05-children_faq.pdf'')) (u ''two'')]),
      (u ''UNKNOWN'', [grant_doc None None (u ''three'')]),
      (u ''AMIF-2025-TF2-AG-INTE-02-HEALTH'',
       [grant_doc None (Some (u ''notes.pdf'')) (u ''medical and health services'')])]"
    by (simp add: extract_grant_groups_def example_grant_documents_def example_group_keys
        example_keys_differ)
  have k: "keep_first (\<lambda>k. k) {} (map group_key example_grant_documents) =
     [u ''AMIF-2025-TF2-AG-INTE-01-WOMEN'', u ''AMIF-2025-TF2-AG-INTE-05-CHILDREN'',
      u ''UNKNOWN'', u ''AMIF-2025-TF2-AG-INTE-02-HEALTH'']"
    by (simp add: example_grant_documents_def example_group_keys example_keys_differ)
  note t = grouping_totality [of example_grant_documents]
  from t have "map fst (extract_grant_groups example_grant_documents)
      = keep_first (\<lambda>k. k) {} (map group_key example_grant_documents)"
    by blast
  moreover from t have "mset (concat (map snd (extract_grant_groups example_grant_documents)))
     = mset example_grant_documents"
    by blast
  ultimately show ?thesis
    using g k by simp
qed

section \<open>The components complete their round\<close>

text \<open>
  The agents modelled here meet the condition on a round used for the supervisor: each
  sets its own completion flag whenever it returns and leaves the other flags alone.
\<close>

lemma retriever_execute_flags:
  fixes st :: "'x state"
  shows "retrieval_performed (fst (retriever_execute vs st)) = Some True \<and>
     cross_document_performed (fst (retriever_execute vs st)) = cross_document_performed st \<and>
     qa_performed (fst (retriever_execute vs st)) = qa_performed st \<and>
     source_tracking_performed (fst (retriever_execute vs st)) = source_tracking_performed st"
  by (cases "retrieve vs (get_or (query st) [])"; cases "fst (retrieve vs (get_or (query st) []))")
     (auto simp: retriever_execute_def Let_def)

lemma retriever_completes_round:
  "supervisor_execute st = document_retriever \<Longrightarrow> round_done st (fst (retriever_execute vs st))"
  by (simp add: round_done_def retriever_execute_flags get_or_def)

lemma qa_completes_round:
  "supervisor_execute st = qa_agent \<Longrightarrow> fst (qa_execute llm st) = Inr st' \<Longrightarrow> round_done st st'"
  by (auto simp: round_done_def qa_execute_def Let_def get_or_def split: if_splits sum.splits)

lemma source_tracker_completes_round:
  "supervisor_execute st = source_tracker \<Longrightarrow> round_done st (source_tracker_execute st)"
  by (simp add: round_done_def source_tracker_execute_eq get_or_def)

end
